theory Spec2Isabelle
  imports Complex_Main
begin

section \<open>Numbers, angles and vectors\<close>

text \<open>
  The controller of \<^verbatim>\<open>gazebo_ros_actor_command.cpp\<close> computes on C++ \<^verbatim>\<open>double\<close>s.
  They are modelled by \<^typ>\<open>real\<close>: rounding is left out, so every statement below is
  about the exact arithmetic the code approximates. The one operation whose result on
  doubles is not a real number is kept apart: a division whose divisor can be zero
  returns an \<open>fdouble\<close>, with the IEEE 754 outcomes of dividing by (positive) zero.
\<close>

datatype fdouble = Fin real | PInf | NInf | NaN

definition fdiv :: "real \<Rightarrow> real \<Rightarrow> fdouble" where
  "fdiv a b =
     (if b \<noteq> 0 then Fin (a / b)
      else if a = 0 then NaN
      else if 0 < a then PInf else NInf)"

text \<open>
  \<^verbatim>\<open>atan2\<close> of the C library, on reals: the angle of the point \<open>(x, y)\<close> in
  \<open>(-pi, pi]\<close>, and \<open>0\<close> at the origin.
\<close>

definition atan2 :: "real \<Rightarrow> real \<Rightarrow> real" where
  "atan2 y x =
     (if 0 < x then arctan (y / x)
      else if x < 0 then (if 0 \<le> y then arctan (y / x) + pi else arctan (y / x) - pi)
      else if 0 < y then pi / 2
      else if y < 0 then - (pi / 2)
      else 0)"

text \<open>
  \<^verbatim>\<open>ignition::math::Angle::Normalize\<close> sets the angle to
  \<^verbatim>\<open>atan2(sin(value), cos(value))\<close>.
\<close>

definition Normalize :: "real \<Rightarrow> real" where
  "Normalize a = atan2 (sin a) (cos a)"

record Vector3d =
  X :: real
  Y :: real
  Z :: real

type_synonym Vector2d = "real \<times> real"

definition Length2 :: "Vector2d \<Rightarrow> real" where
  "Length2 v = sqrt (fst v * fst v + snd v * snd v)"

definition Length3 :: "Vector3d \<Rightarrow> real" where
  "Length3 v = sqrt (X v * X v + Y v * Y v + Z v * Z v)"

definition minus3 :: "Vector3d \<Rightarrow> Vector3d \<Rightarrow> Vector3d" where
  "minus3 a b = \<lparr>X = X a - X b, Y = Y a - Y b, Z = Z a - Z b\<rparr>"

text \<open>
  The quaternion of \<^verbatim>\<open>ignition::math\<close>, as the library computes it. Its four components
  are \<open>(w, x, y, z)\<close>. \<^verbatim>\<open>Normalize\<close> divides them by the norm, or gives the identity
  when the norm is within \<open>1e-6\<close> of zero. The constructor from roll, pitch and yaw
  computes the components from the half angles and normalises them. \<^verbatim>\<open>Euler()\<close>
  normalises a copy and reads roll, pitch and yaw back with \<^verbatim>\<open>atan2\<close> and \<^verbatim>\<open>asin\<close>: the
  angles it returns lie in \<open>[-pi, pi]\<close>, whatever angles the quaternion was built from.
\<close>

type_synonym quat = "real \<times> real \<times> real \<times> real"

definition quat_Normalize :: "quat \<Rightarrow> quat" where
  "quat_Normalize q =
     (case q of (w, x, y, z) \<Rightarrow>
        (let s = sqrt (w * w + x * x + y * y + z * z)
         in if \<bar>s - 0\<bar> \<le> 1 / 10 ^ 6 then (1, 0, 0, 0)
            else (w / s, x / s, y / s, z / s)))"

definition quat_from_Euler :: "real \<Rightarrow> real \<Rightarrow> real \<Rightarrow> quat" where
  "quat_from_Euler roll pitch yaw =
     (let phi = roll / 2; the = pitch / 2; psi = yaw / 2
      in quat_Normalize
           (cos phi * cos the * cos psi + sin phi * sin the * sin psi,
            sin phi * cos the * cos psi - cos phi * sin the * sin psi,
            cos phi * sin the * cos psi + sin phi * cos the * sin psi,
            cos phi * cos the * sin psi - sin phi * sin the * cos psi))"

definition quat_Euler :: "quat \<Rightarrow> Vector3d" where
  "quat_Euler q =
     (case quat_Normalize q of (w, x, y, z) \<Rightarrow>
        (let tol = 1 / 10 ^ 15;
             squ = w * w; sqx = x * x; sqy = y * y; sqz = z * z;
             sarg = - 2 * (x * z - w * y);
             pitch = (if sarg \<le> - 1 then - (pi / 2)
                      else if 1 \<le> sarg then pi / 2
                      else arcsin sarg)
         in if \<bar>sarg - 1\<bar> < tol then
              \<lparr>X = atan2 (2 * (x * y - z * w)) (squ - sqx + sqy - sqz), Y = pitch, Z = 0\<rparr>
            else if \<bar>sarg + 1\<bar> < tol then
              \<lparr>X = atan2 (- 2 * (x * y - z * w)) (squ - sqx + sqy - sqz), Y = pitch, Z = 0\<rparr>
            else
              \<lparr>X = atan2 (2 * (y * z + w * x)) (squ - sqx - sqy + sqz),
               Y = pitch,
               Z = atan2 (2 * (x * y + w * z)) (squ + sqx - sqy - sqz)\<rparr>))"

text \<open>
  The plugin builds every quaternion from roll, pitch and yaw, and the pose it gets from
  the simulator is the rotation of some such angles: a \<open>Quaterniond\<close> is kept as the
  three angles given to the constructor, and \<open>Euler\<close> reads it back through the
  components as the library does. The quaternion of the odometry message
  (\<^verbatim>\<open>tf2::Quaternion::setRPY\<close>) is kept in the same way; it is never read back.
\<close>

datatype Quaterniond = Quaterniond real real real

definition Euler :: "Quaterniond \<Rightarrow> Vector3d" where
  "Euler q = (case q of Quaterniond roll pitch yaw \<Rightarrow> quat_Euler (quat_from_Euler roll pitch yaw))"

record Pose3d =
  PosP :: Vector3d
  RotP :: Quaterniond

section \<open>Messages\<close>

text \<open>\<^verbatim>\<open>geometry_msgs::Twist\<close>, the velocity command.\<close>

record Twist =
  linear :: Vector3d
  angular :: Vector3d

text \<open>
  One \<^verbatim>\<open>geometry_msgs::PoseStamped\<close> of a \<^verbatim>\<open>nav_msgs::Path\<close>: the position and the
  orientation quaternion \<open>(x, y, z, w)\<close>.
\<close>

record PoseStamped =
  position :: Vector3d
  orientation :: "real \<times> real \<times> real \<times> real"

type_synonym Path = "PoseStamped list"

text \<open>
  The fields of \<^verbatim>\<open>nav_msgs::Odometry\<close> that the tick writes. The orientation is the
  quaternion \<^verbatim>\<open>setRPY(0, 0, yaw)\<close>, kept as its three angles. A ROS message starts with
  every number at zero. The time stamp (\<^verbatim>\<open>ros::Time::now()\<close>) is left out.
\<close>

record Odometry =
  frame_id :: string
  position_x :: real
  position_y :: real
  odom_orientation :: Quaterniond
  twist_linear_x :: real
  twist_linear_y :: real
  twist_angular_z :: fdouble

record UpdateInfo =
  simTime :: real

section \<open>The plugin object\<close>

abbreviation WALKING_ANIMATION :: string where
  "WALKING_ANIMATION \<equiv> ''walking''"

abbreviation STANDING_ANIMATION :: string where
  "STANDING_ANIMATION \<equiv> ''standing''"

text \<open>
  The members of \<^verbatim>\<open>GazeboRosActorCommand\<close> that the callbacks and the tick use, without
  the trailing underscore of the C++ names. The actor of the simulator is its world pose
  and its script time; the publisher \<open>actor_pub\<close> is the list of the messages published
  so far, oldest first. \<open>trajectoryInfo_type\<close> is the \<^verbatim>\<open>type\<close> field of the trajectory
  that \<^verbatim>\<open>Reset\<close> installs: the model covers a controller whose trajectory is installed
  (\<^verbatim>\<open>OnUpdate\<close> writes through the pointer without a check).
\<close>

record plugin =
  follow_mode :: string
  lin_tolerance :: real
  lin_velocity :: real
  ang_tolerance :: real
  ang_velocity :: real
  animation_factor :: real
  default_rotation :: real
  abort :: bool
  last_update :: real
  idx :: nat
  target_poses :: "Vector3d list"
  target_pose :: Vector3d
  cmd_queue :: "Vector3d list"
  target_vel :: Pose3d
  trajectoryInfo_type :: string
  trajectoryInfo_duration :: real
  actor_WorldPose :: Pose3d
  actor_ScriptTime :: real
  actor_pub :: "Odometry list"

datatype error = out_of_range

text \<open>\<^verbatim>\<open>std::vector::at\<close>: throws \<^verbatim>\<open>std::out_of_range\<close> past the end.\<close>

definition vector_at :: "'a list \<Rightarrow> nat \<Rightarrow> error + 'a" where
  "vector_at xs i = (if i < length xs then Inr (xs ! i) else Inl out_of_range)"

section \<open>Reset and the three callbacks\<close>

text \<open>
  \<^verbatim>\<open>Reset\<close> appends the actor's pose to the waypoint list (it does not clear the list),
  makes it the target, and installs the trajectory when the skeleton has both clips.
\<close>

definition Reset :: "string list \<Rightarrow> plugin \<Rightarrow> error + plugin" where
  "Reset skelAnims s =
     (let s1 = s\<lparr>last_update := 0, idx := 0\<rparr>;
          pose = actor_WorldPose s1;
          s2 = s1\<lparr>target_poses := target_poses s1 @
                  [\<lparr>X = X (PosP pose), Y = Y (PosP pose), Z = Z (Euler (RotP pose))\<rparr>]\<rparr>
      in case vector_at (target_poses s2) (idx s2) of
           Inl e \<Rightarrow> Inl e
         | Inr t \<Rightarrow>
             (let s3 = s2\<lparr>target_pose := t\<rparr>
              in if WALKING_ANIMATION \<notin> set skelAnims then Inr s3
                 else if STANDING_ANIMATION \<notin> set skelAnims then Inr s3
                 else Inr (s3\<lparr>trajectoryInfo_type := STANDING_ANIMATION,
                              trajectoryInfo_duration := 1\<rparr>)))"

text \<open>
  \<^verbatim>\<open>Load\<close> with a ROS node that is initialised (otherwise it logs and returns before
  \<^verbatim>\<open>Reset\<close>, and connects no tick). The SDF element is the record of the numeric and
  mode options it may hold; the topic names and the subscriptions are left out. Each
  parameter gets its default and then the value of the element when there is one;
  \<^verbatim>\<open>default_rotation_\<close> has no default here and keeps the value the object has.
\<close>

record sdf =
  sdf_follow_mode :: "string option"
  sdf_linear_tolerance :: "real option"
  sdf_linear_velocity :: "real option"
  sdf_angular_tolerance :: "real option"
  sdf_angular_velocity :: "real option"
  sdf_animation_factor :: "real option"
  sdf_default_rotation :: "real option"

definition IGN_DTOR :: "real \<Rightarrow> real" where
  "IGN_DTOR d = d * pi / 180"

definition value_or :: "'a option \<Rightarrow> 'a \<Rightarrow> 'a" where
  "value_or v d = (case v of None \<Rightarrow> d | Some x \<Rightarrow> x)"

definition Load :: "sdf \<Rightarrow> string list \<Rightarrow> plugin \<Rightarrow> error + plugin" where
  "Load e skelAnims s =
     (let s1 = s\<lparr>follow_mode := ''velocity'',
                 lin_tolerance := 1 / 10,
                 lin_velocity := 1,
                 ang_tolerance := IGN_DTOR 5,
                 ang_velocity := IGN_DTOR 10,
                 animation_factor := 4,
                 abort := False\<rparr>;
          s2 = s1\<lparr>follow_mode := value_or (sdf_follow_mode e) (follow_mode s1),
                  lin_tolerance := value_or (sdf_linear_tolerance e) (lin_tolerance s1),
                  lin_velocity := value_or (sdf_linear_velocity e) (lin_velocity s1),
                  ang_tolerance := value_or (sdf_angular_tolerance e) (ang_tolerance s1),
                  ang_velocity := value_or (sdf_angular_velocity e) (ang_velocity s1),
                  animation_factor := value_or (sdf_animation_factor e) (animation_factor s1),
                  default_rotation := value_or (sdf_default_rotation e) (default_rotation s1)\<rparr>
      in Reset skelAnims s2)"

text \<open>
  \<^verbatim>\<open>VelCallback\<close>: a zero vector whose \<open>X\<close> is \<^verbatim>\<open>linear.x\<close> and whose \<open>Z\<close> is
  \<^verbatim>\<open>angular.z\<close> is pushed at the back of the command queue.
\<close>

definition VelCallback :: "Twist \<Rightarrow> plugin \<Rightarrow> plugin" where
  "VelCallback msg s =
     (let vel_cmd = \<lparr>X = 0, Y = 0, Z = 0\<rparr>;
          vel_cmd = vel_cmd\<lparr>X := X (linear msg)\<rparr>;
          vel_cmd = vel_cmd\<lparr>Z := Z (angular msg)\<rparr>
      in s\<lparr>cmd_queue := cmd_queue s @ [vel_cmd]\<rparr>)"

text \<open>
  \<^verbatim>\<open>PathCallback\<close>. The yaw of a waypoint comes from \<^verbatim>\<open>tf2::Matrix3x3::getRPY\<close>, which
  is not part of this repository: it is the parameter \<open>getYaw\<close>.
\<close>

definition PathCallback ::
  "(real \<times> real \<times> real \<times> real \<Rightarrow> real) \<Rightarrow> Path \<Rightarrow> plugin \<Rightarrow> plugin" where
  "PathCallback getYaw poses s =
     (let s1 = s\<lparr>target_poses := [], idx := 0, abort := False\<rparr>
      in s1\<lparr>target_poses := target_poses s1 @
              map (\<lambda>p. \<lparr>X = X (position p), Y = Y (position p),
                        Z = getYaw (orientation p)\<rparr>) poses\<rparr>)"

definition AbortCallback :: "bool \<Rightarrow> plugin \<Rightarrow> plugin" where
  "AbortCallback data s = s\<lparr>abort := data\<rparr>"

section \<open>The tick\<close>

definition ChooseNewTarget :: "plugin \<Rightarrow> error + plugin" where
  "ChooseNewTarget s =
     (let s1 = s\<lparr>idx := idx s + 1\<rparr>
      in case vector_at (target_poses s1) (idx s1) of
           Inl e \<Rightarrow> Inl e
         | Inr t \<Rightarrow> Inr (s1\<lparr>target_pose := t\<rparr>))"

text \<open>
  Lines 232 to 261 of \<^verbatim>\<open>OnUpdate\<close>: the clip is set to walking, then the target and the
  vector \<open>pos\<close> towards it are chosen. \<^verbatim>\<open>target_poses_.size() - 1\<close> is unsigned, and is
  only evaluated on a list that is not empty, where it is \<open>length - 1\<close>.
\<close>

definition select_target :: "plugin \<Rightarrow> Pose3d \<Rightarrow> error + (plugin \<times> Vector2d)" where
  "select_target s0 pose =
     (let s = s0\<lparr>trajectoryInfo_type := WALKING_ANIMATION\<rparr>;
          target_pos_2d = (X (target_pose s), Y (target_pose s));
          current_pos_2d = (X (PosP pose), Y (PosP pose));
          pos = (fst target_pos_2d - fst current_pos_2d,
                 snd target_pos_2d - snd current_pos_2d);
          distance = Length2 pos
      in if abort s \<or> target_poses s = [] then
           Inr (s\<lparr>target_poses := [],
                   target_pose := (target_pose s)\<lparr>X := X (PosP pose), Y := Y (PosP pose)\<rparr>,
                   idx := 0\<rparr>,
                (0, 0))
         else if distance < lin_tolerance s then
           (if idx s < length (target_poses s) - 1 then
              (case ChooseNewTarget s of
                 Inl e \<Rightarrow> Inl e
               | Inr s' \<Rightarrow>
                   Inr (s', (X (target_pose s') - X (PosP pose),
                             Y (target_pose s') - Y (PosP pose))))
            else Inr (s\<lparr>trajectoryInfo_type := STANDING_ANIMATION\<rparr>, (0, 0)))
         else Inr (s, pos))"

text \<open>Lines 264 to 266: the vector is normalised when it is not zero.\<close>

definition unit_heading :: "Vector2d \<Rightarrow> Vector2d" where
  "unit_heading pos =
     (if Length2 pos \<noteq> 0 then (fst pos / Length2 pos, snd pos / Length2 pos) else pos)"

text \<open>Lines 271 to 275: the angular displacement towards the target.\<close>

definition angular_displacement :: "plugin \<Rightarrow> Vector3d \<Rightarrow> Vector2d \<Rightarrow> real" where
  "angular_displacement s rpy pos =
     (if Length2 pos \<noteq> 0
      then Normalize (atan2 (snd pos) (fst pos) + default_rotation s - Z rpy)
      else 0)"

text \<open>The branch \<^verbatim>\<open>follow_mode_ == "path"\<close>, lines 232 to 294.\<close>

definition follow_path ::
  "plugin \<Rightarrow> Pose3d \<Rightarrow> Vector3d \<Rightarrow> real \<Rightarrow> Odometry \<Rightarrow> error + (plugin \<times> Pose3d \<times> Odometry)" where
  "follow_path s0 pose rpy dt human_odom =
     (case select_target s0 pose of
        Inl e \<Rightarrow> Inl e
      | Inr (s, pos0) \<Rightarrow>
          (let pos = unit_heading pos0;
               yaw = angular_displacement s rpy pos;
               rot_sign = (if yaw < 0 then - 1 else 1)
           in if \<bar>yaw\<bar> > ang_tolerance s then
                Inr (s,
                     pose\<lparr>RotP := Quaterniond (default_rotation s) 0
                                    (Z rpy + rot_sign * ang_velocity s * dt)\<rparr>,
                     human_odom\<lparr>twist_angular_z := Fin (rot_sign * ang_velocity s)\<rparr>)
              else
                Inr (s,
                     pose\<lparr>PosP := (PosP pose)
                              \<lparr>X := X (PosP pose) + fst pos * lin_velocity s * dt,
                               Y := Y (PosP pose) + snd pos * lin_velocity s * dt\<rparr>,
                          RotP := Quaterniond (default_rotation s) 0 (Z rpy + yaw)\<rparr>,
                     human_odom\<lparr>twist_linear_x := fst pos * lin_velocity s,
                                twist_linear_y := snd pos * lin_velocity s,
                                twist_angular_z := fdiv yaw dt\<rparr>)))"

text \<open>The branch \<^verbatim>\<open>follow_mode_ == "velocity"\<close>, lines 297 to 319.\<close>

definition follow_velocity ::
  "plugin \<Rightarrow> Pose3d \<Rightarrow> Vector3d \<Rightarrow> real \<Rightarrow> Odometry \<Rightarrow> plugin \<times> Pose3d \<times> Odometry" where
  "follow_velocity s0 pose rpy dt human_odom =
     (let s1 = s0\<lparr>trajectoryInfo_type := WALKING_ANIMATION\<rparr>;
          s = (if cmd_queue s1 \<noteq> [] then
                 s1\<lparr>target_vel := (target_vel s1)
                        \<lparr>PosP := (PosP (target_vel s1))\<lparr>X := X (hd (cmd_queue s1))\<rparr>,
                         RotP := Quaterniond 0 0 (Z (hd (cmd_queue s1)))\<rparr>,
                    cmd_queue := tl (cmd_queue s1)\<rparr>
               else s1);
          v = X (PosP (target_vel s));
          heading = Z (Euler (RotP pose)) - default_rotation s;
          w = Z (Euler (RotP (target_vel s)))
      in (s,
          pose\<lparr>PosP := (PosP pose)
                   \<lparr>X := X (PosP pose) + v * cos heading * dt,
                    Y := Y (PosP pose) + v * sin heading * dt\<rparr>,
               RotP := Quaterniond (default_rotation s) 0 (Z rpy + w * dt)\<rparr>,
          human_odom\<lparr>twist_linear_x := v * cos heading,
                     twist_linear_y := v * sin heading,
                     twist_angular_z := Fin w\<rparr>))"

text \<open>
  Lines 322 to 331: the message is published, the distance travelled is measured
  against the pose the actor still has, the new pose is set, the script time advances.
\<close>

definition finish_update :: "UpdateInfo \<Rightarrow> plugin \<Rightarrow> Pose3d \<Rightarrow> Odometry \<Rightarrow> plugin" where
  "finish_update info s pose human_odom =
     (let s1 = s\<lparr>actor_pub := actor_pub s @ [human_odom]\<rparr>;
          displacement = minus3 (PosP pose) (PosP (actor_WorldPose s1));
          distanceTraveled = Length3 displacement;
          s2 = s1\<lparr>actor_WorldPose := pose\<rparr>;
          s3 = s2\<lparr>actor_ScriptTime :=
                    actor_ScriptTime s2 + distanceTraveled * animation_factor s2\<rparr>
      in s3\<lparr>last_update := simTime info\<rparr>)"

definition OnUpdate :: "UpdateInfo \<Rightarrow> plugin \<Rightarrow> error + plugin" where
  "OnUpdate info s =
     (let dt = simTime info - last_update s;
          pose = actor_WorldPose s;
          rpy = Euler (RotP pose);
          human_odom = \<lparr>frame_id = ''map'',
                        position_x = X (PosP pose),
                        position_y = Y (PosP pose),
                        odom_orientation = Quaterniond 0 0 (Z rpy - default_rotation s),
                        twist_linear_x = 0,
                        twist_linear_y = 0,
                        twist_angular_z = Fin 0\<rparr>
      in if follow_mode s = ''path'' then
           (case follow_path s pose rpy dt human_odom of
              Inl e \<Rightarrow> Inl e
            | Inr (s1, pose1, odom1) \<Rightarrow> Inr (finish_update info s1 pose1 odom1))
         else if follow_mode s = ''velocity'' then
           (case follow_velocity s pose rpy dt human_odom of
              (s1, pose1, odom1) \<Rightarrow> Inr (finish_update info s1 pose1 odom1))
         else Inr (finish_update info s pose human_odom))"

section \<open>Runs\<close>

text \<open>
  The callbacks run on their own threads in the code, without a lock. A run takes them
  one at a time, each one whole, between two ticks.
\<close>

datatype event =
  Vel Twist
  | PathCmd Path
  | Abort bool
  | Update UpdateInfo
  | ResetEv "string list"

definition apply_event ::
  "(real \<times> real \<times> real \<times> real \<Rightarrow> real) \<Rightarrow> event \<Rightarrow> plugin \<Rightarrow> error + plugin" where
  "apply_event getYaw e s =
     (case e of
        Vel msg \<Rightarrow> Inr (VelCallback msg s)
      | PathCmd msg \<Rightarrow> Inr (PathCallback getYaw msg s)
      | Abort b \<Rightarrow> Inr (AbortCallback b s)
      | Update info \<Rightarrow> OnUpdate info s
      | ResetEv anims \<Rightarrow> Reset anims s)"

fun run ::
  "(real \<times> real \<times> real \<times> real \<Rightarrow> real) \<Rightarrow> plugin \<Rightarrow> event list \<Rightarrow> error + plugin" where
  "run getYaw s [] = Inr s"
| "run getYaw s (e # es) =
     (case apply_event getYaw e s of
        Inl err \<Rightarrow> Inl err
      | Inr s' \<Rightarrow> run getYaw s' es)"

section \<open>Predicates and sample states for the properties\<close>

text \<open>The target index points into the waypoint list whenever the list is not empty.\<close>

definition idx_ok :: "plugin \<Rightarrow> bool" where
  "idx_ok s \<longleftrightarrow> (target_poses s \<noteq> [] \<longrightarrow> idx s < length (target_poses s))"

text \<open>
  The controller as \<^verbatim>\<open>Load\<close> leaves it when the SDF element gives only the follow mode
  and the actor stands at the origin: the default parameters, and the state after
  \<^verbatim>\<open>Reset\<close> (one waypoint, the actor's own pose). Lemma \<open>Load_defaults\<close> below
  computes it from \<open>Load\<close>.
\<close>

definition origin :: Vector3d where
  "origin = \<lparr>X = 0, Y = 0, Z = 0\<rparr>"

definition loaded_plugin :: "string \<Rightarrow> plugin" where
  "loaded_plugin mode =
     \<lparr>follow_mode = mode,
      lin_tolerance = 1 / 10,
      lin_velocity = 1,
      ang_tolerance = 5 * pi / 180,
      ang_velocity = 10 * pi / 180,
      animation_factor = 4,
      default_rotation = 0,
      abort = False,
      last_update = 0,
      idx = 0,
      target_poses = [origin],
      target_pose = origin,
      cmd_queue = [],
      target_vel = \<lparr>PosP = origin, RotP = Quaterniond 0 0 0\<rparr>,
      trajectoryInfo_type = STANDING_ANIMATION,
      trajectoryInfo_duration = 1,
      actor_WorldPose = \<lparr>PosP = origin, RotP = Quaterniond 0 0 0\<rparr>,
      actor_ScriptTime = 0,
      actor_pub = []\<rparr>"

text \<open>
  The object before \<^verbatim>\<open>Load\<close>: no waypoint, no command, nothing published, the default
  rotation 0 of the specification, the actor at the origin.
\<close>

definition constructed :: plugin where
  "constructed =
     \<lparr>follow_mode = [],
      lin_tolerance = 0,
      lin_velocity = 0,
      ang_tolerance = 0,
      ang_velocity = 0,
      animation_factor = 0,
      default_rotation = 0,
      abort = False,
      last_update = 0,
      idx = 0,
      target_poses = [],
      target_pose = origin,
      cmd_queue = [],
      target_vel = \<lparr>PosP = origin, RotP = Quaterniond 0 0 0\<rparr>,
      trajectoryInfo_type = [],
      trajectoryInfo_duration = 0,
      actor_WorldPose = \<lparr>PosP = origin, RotP = Quaterniond 0 0 0\<rparr>,
      actor_ScriptTime = 0,
      actor_pub = []\<rparr>"

text \<open>
  The message as the tick fills it before it looks at the follow mode (lines 220 to
  229), and the vector from the actor to the current target (lines 233 to 236).
\<close>

definition start_odom :: "plugin \<Rightarrow> Odometry" where
  "start_odom s =
     \<lparr>frame_id = ''map'',
      position_x = X (PosP (actor_WorldPose s)),
      position_y = Y (PosP (actor_WorldPose s)),
      odom_orientation =
        Quaterniond 0 0 (Z (Euler (RotP (actor_WorldPose s))) - default_rotation s),
      twist_linear_x = 0,
      twist_linear_y = 0,
      twist_angular_z = Fin 0\<rparr>"

definition to_target :: "plugin \<Rightarrow> Vector2d" where
  "to_target s =
     (X (target_pose s) - X (PosP (actor_WorldPose s)),
      Y (target_pose s) - Y (PosP (actor_WorldPose s)))"

text \<open>
  A velocity command \<open>(v, 0)\<close> is held: it is the one command waiting in the queue, or
  the queue is empty and it is the velocity the tick last took from it.
\<close>

definition held :: "real \<Rightarrow> plugin \<Rightarrow> bool" where
  "held v s \<longleftrightarrow>
     follow_mode s = ''velocity'' \<and>
     (cmd_queue s = [\<lparr>X = v, Y = 0, Z = 0\<rparr>] \<or>
      cmd_queue s = [] \<and> X (PosP (target_vel s)) = v \<and> Z (Euler (RotP (target_vel s))) = 0)"

text \<open>The heading the odometry reports: the yaw of the actor less the default rotation.\<close>

definition heading :: "plugin \<Rightarrow> real" where
  "heading s = Z (Euler (RotP (actor_WorldPose s))) - default_rotation s"

text \<open>
  Two events agree when they are the same event, or two velocity commands with the same
  \<^verbatim>\<open>linear.x\<close> and the same \<^verbatim>\<open>angular.z\<close>.
\<close>

fun event_equiv :: "event \<Rightarrow> event \<Rightarrow> bool" where
  "event_equiv (Vel a) (Vel b) \<longleftrightarrow>
     X (linear a) = X (linear b) \<and> Z (angular a) = Z (angular b)"
| "event_equiv e1 e2 \<longleftrightarrow> e1 = e2"

text \<open>
  What a stretch of ticks under a held command \<open>(v, 0)\<close> does, from \<open>s\<close> to \<open>s'\<close>,
  publishing \<open>ods\<close>.
\<close>

definition advanced :: "real \<Rightarrow> plugin \<Rightarrow> plugin \<Rightarrow> Odometry list \<Rightarrow> bool" where
  "advanced v s s' ods \<longleftrightarrow>
     held v s'
     \<and> X (PosP (actor_WorldPose s')) =
         X (PosP (actor_WorldPose s)) + v * cos (heading s) * (last_update s' - last_update s)
     \<and> Y (PosP (actor_WorldPose s')) =
         Y (PosP (actor_WorldPose s)) + v * sin (heading s) * (last_update s' - last_update s)
     \<and> heading s' = heading s
     \<and> actor_pub s' = actor_pub s @ ods
     \<and> (\<forall>od \<in> set ods. odom_orientation od = Quaterniond 0 0 (heading s))"

text \<open>
  The loaded path follower with one waypoint at \<open>(10, 0)\<close> that is its target, and the
  path command that carries this one waypoint.
\<close>

definition goal_ahead :: plugin where
  "goal_ahead =
     (loaded_plugin ''path'')
       \<lparr>target_poses := [\<lparr>X = 10, Y = 0, Z = 0\<rparr>], target_pose := \<lparr>X = 10, Y = 0, Z = 0\<rparr>\<rparr>"

definition goal_path :: Path where
  "goal_path = [\<lparr>position = \<lparr>X = 10, Y = 0, Z = 0\<rparr>, orientation = (0, 0, 0, 1)\<rparr>]"

text \<open>
  The angular displacement of a path tick whose vector towards the target is \<open>p0\<close>: the
  value of \<^verbatim>\<open>yaw\<close> at line 277.
\<close>

definition angular_error :: "plugin \<Rightarrow> Vector2d \<Rightarrow> real" where
  "angular_error s p0 =
     angular_displacement s (Euler (RotP (actor_WorldPose s))) (unit_heading p0)"


definition goal_left :: plugin where
  "goal_left =
     (loaded_plugin ''path'')
       \<lparr>target_poses := [\<lparr>X = 0, Y = 10, Z = 0\<rparr>], target_pose := \<lparr>X = 0, Y = 10, Z = 0\<rparr>\<rparr>"

text \<open>
  More sample states: the loaded path follower with its one waypoint \<open>0.05\<close> ahead,
  inside the linear tolerance; the loaded path follower after a path command with two
  waypoints, the first at its own position; the loaded velocity follower with the
  command \<open>(1, 1)\<close> waiting.
\<close>

definition goal_near :: plugin where
  "goal_near =
     (loaded_plugin ''path'')
       \<lparr>target_poses := [\<lparr>X = 1 / 20, Y = 0, Z = 0\<rparr>],
        target_pose := \<lparr>X = 1 / 20, Y = 0, Z = 0\<rparr>\<rparr>"

definition two_goal_path :: Path where
  "two_goal_path =
     [\<lparr>position = \<lparr>X = 0, Y = 0, Z = 0\<rparr>, orientation = (0, 0, 0, 1)\<rparr>,
      \<lparr>position = \<lparr>X = 10, Y = 0, Z = 0\<rparr>, orientation = (0, 0, 0, 1)\<rparr>]"

definition two_goals :: plugin where
  "two_goals = PathCallback (\<lambda>q. 0) two_goal_path (loaded_plugin ''path'')"


section \<open>Angles read back from a quaternion\<close>

lemma atan2_bounds: "- pi < atan2 y x \<and> atan2 y x \<le> pi"
proof -
  have lo: "- (pi / 2) < arctan (y / x)" and hi: "arctan (y / x) < pi / 2"
    by (rule arctan_lbound, rule arctan_ubound)
  consider (pos) "0 < x" | (neg1) "x < 0" "0 \<le> y" | (neg2) "x < 0" "y < 0" | (zero) "x = 0"
    by linarith
  then show ?thesis
  proof cases
    case pos
    then have "atan2 y x = arctan (y / x)" by (simp add: atan2_def)
    with lo hi pi_gt_zero show ?thesis by linarith
  next
    case neg1
    then have "y / x \<le> 0" by (simp add: divide_nonneg_neg)
    then have le: "arctan (y / x) \<le> 0" by (simp add: arctan_le_zero_iff)
    from neg1 have "atan2 y x = arctan (y / x) + pi" by (simp add: atan2_def)
    with lo le pi_gt_zero show ?thesis by linarith
  next
    case neg2
    then have "0 < y / x" by (simp add: divide_neg_neg)
    then have gt: "0 < arctan (y / x)" by (simp add: zero_less_arctan_iff)
    from neg2 have "atan2 y x = arctan (y / x) - pi" by (simp add: atan2_def)
    with hi gt pi_gt_zero show ?thesis by linarith
  next
    case zero
    then have "atan2 y x = pi / 2 \<or> atan2 y x = - (pi / 2) \<or> atan2 y x = 0"
      by (simp add: atan2_def)
    with pi_gt_zero show ?thesis by linarith
  qed
qed

lemma Normalize_bounds: "- pi < Normalize a \<and> Normalize a \<le> pi"
  unfolding Normalize_def by (rule atan2_bounds)


lemma atan2_sin_cos:
  assumes "- pi < a" "a \<le> pi"
  shows "atan2 (sin a) (cos a) = a"
proof -
  consider (mid) "- (pi / 2) < a" "a < pi / 2"
    | (up) "pi / 2 < a" | (down) "a < - (pi / 2)"
    | (top) "a = pi / 2" | (bot) "a = - (pi / 2)"
    by linarith
  then show ?thesis
  proof cases
    case mid
    then have c: "0 < cos a" by (rule cos_gt_zero_pi)
    have "arctan (sin a / cos a) = a"
      using arctan_tan[OF mid] by (simp only: tan_def)
    with c show ?thesis by (simp add: atan2_def)
  next
    case up
    let ?b = "a - pi"
    have b: "- (pi / 2) < ?b" "?b < pi / 2" using up assms by linarith+
    have cb: "0 < cos ?b" using b by (rule cos_gt_zero_pi)
    have ca: "cos ?b = - cos a" and sa: "sin ?b = - sin a"
      by (simp_all add: cos_diff sin_diff)
    have neg: "cos a < 0" using cb ca by linarith
    have "0 \<le> - ?b" "- ?b \<le> pi" using assms up by linarith+
    then have "0 \<le> sin (- ?b)" by (rule sin_ge_zero)
    then have sn: "0 \<le> sin a" using sa by (simp only: sin_minus)
    have "sin a / cos a = sin ?b / cos ?b" by (simp add: ca sa)
    then have "arctan (sin a / cos a) = ?b"
      using arctan_tan[OF b] by (simp only: tan_def)
    with neg sn show ?thesis by (simp add: atan2_def)
  next
    case down
    let ?b = "a + pi"
    have b: "- (pi / 2) < ?b" "?b < pi / 2" using down assms by linarith+
    have cb: "0 < cos ?b" using b by (rule cos_gt_zero_pi)
    have ca: "cos ?b = - cos a" and sa: "sin ?b = - sin a"
      by (simp_all add: cos_add sin_add)
    have neg: "cos a < 0" using cb ca by linarith
    have "0 < ?b" "?b < pi" using assms down by linarith+
    then have "0 < sin ?b" by (rule sin_gt_zero)
    then have sn: "sin a < 0" using sa by linarith
    have "sin a / cos a = sin ?b / cos ?b" by (simp add: ca sa)
    then have "arctan (sin a / cos a) = ?b"
      using arctan_tan[OF b] by (simp only: tan_def)
    with neg sn show ?thesis by (simp add: atan2_def)
  next
    case top
    have "atan2 (sin (pi / 2)) (cos (pi / 2)) = pi / 2" by (simp add: atan2_def)
    then show ?thesis unfolding top .
  next
    case bot
    have "atan2 (sin (- (pi / 2))) (cos (- (pi / 2))) = - (pi / 2)" by (simp add: atan2_def)
    then show ?thesis unfolding bot .
  qed
qed

lemma Normalize_id: "- pi < a \<Longrightarrow> a \<le> pi \<Longrightarrow> Normalize a = a"
  unfolding Normalize_def by (rule atan2_sin_cos)


lemma quat_Normalize_unit:
  assumes "w * w + x * x + y * y + z * z = 1"
  shows "quat_Normalize (w, x, y, z) = (w, x, y, z)"
  using assms by (simp add: quat_Normalize_def)

lemma unit_products:
  fixes c s C S :: real
  assumes "s * s + c * c = 1" and "S * S + C * C = 1"
  shows "(c * C) * (c * C) + (s * C) * (s * C) + (s * S) * (s * S) + (c * S) * (c * S) = 1"
    and "2 * ((s * S) * (c * S) + (c * C) * (s * C)) = 2 * s * c"
    and "(c * C) * (c * C) - (s * C) * (s * C) - (s * S) * (s * S) + (c * S) * (c * S)
           = c * c - s * s"
    and "2 * ((s * C) * (s * S) + (c * C) * (c * S)) = 2 * S * C"
    and "(c * C) * (c * C) + (s * C) * (s * C) - (s * S) * (s * S) - (c * S) * (c * S)
           = C * C - S * S"
proof -
  have "(c * C) * (c * C) + (s * C) * (s * C) + (s * S) * (s * S) + (c * S) * (c * S)
          = (s * s + c * c) * (S * S + C * C)"
    by (simp add: algebra_simps)
  then show "(c * C) * (c * C) + (s * C) * (s * C) + (s * S) * (s * S) + (c * S) * (c * S) = 1"
    by (simp add: assms)
  have "2 * ((s * S) * (c * S) + (c * C) * (s * C)) = (2 * s * c) * (S * S + C * C)"
    by (simp add: algebra_simps)
  then show "2 * ((s * S) * (c * S) + (c * C) * (s * C)) = 2 * s * c"
    by (simp add: assms)
  have "(c * C) * (c * C) - (s * C) * (s * C) - (s * S) * (s * S) + (c * S) * (c * S)
          = (c * c - s * s) * (S * S + C * C)"
    by (simp add: algebra_simps)
  then show "(c * C) * (c * C) - (s * C) * (s * C) - (s * S) * (s * S) + (c * S) * (c * S)
           = c * c - s * s"
    by (simp add: assms)
  have "2 * ((s * C) * (s * S) + (c * C) * (c * S)) = (2 * S * C) * (s * s + c * c)"
    by (simp add: algebra_simps)
  then show "2 * ((s * C) * (s * S) + (c * C) * (c * S)) = 2 * S * C"
    by (simp add: assms)
  have "(c * C) * (c * C) + (s * C) * (s * C) - (s * S) * (s * S) - (c * S) * (c * S)
          = (C * C - S * S) * (s * s + c * c)"
    by (simp add: algebra_simps)
  then show "(c * C) * (c * C) + (s * C) * (s * C) - (s * S) * (s * S) - (c * S) * (c * S)
           = C * C - S * S"
    by (simp add: assms)
qed

lemma half_angle:
  fixes a :: real
  shows "sin (a / 2) * sin (a / 2) + cos (a / 2) * cos (a / 2) = 1"
    and "2 * sin (a / 2) * cos (a / 2) = sin a"
    and "cos (a / 2) * cos (a / 2) - sin (a / 2) * sin (a / 2) = cos a"
proof -
  show "sin (a / 2) * sin (a / 2) + cos (a / 2) * cos (a / 2) = 1"
    using sin_cos_squared_add[of "a / 2"] by (simp only: power2_eq_square)
  show "2 * sin (a / 2) * cos (a / 2) = sin a"
    using sin_double[of "a / 2"] by simp
  show "cos (a / 2) * cos (a / 2) - sin (a / 2) * sin (a / 2) = cos a"
    using cos_double[of "a / 2"] by (simp add: power2_eq_square)
qed

lemma quat_from_Euler_pitch0:
  "quat_from_Euler r 0 y =
     (cos (r / 2) * cos (y / 2), sin (r / 2) * cos (y / 2),
      sin (r / 2) * sin (y / 2), cos (r / 2) * sin (y / 2))"
proof -
  note u = unit_products(1)[OF half_angle(1)[of r] half_angle(1)[of y]]
  have "quat_Normalize (cos (r / 2) * cos (y / 2), sin (r / 2) * cos (y / 2),
      sin (r / 2) * sin (y / 2), cos (r / 2) * sin (y / 2))
      = (cos (r / 2) * cos (y / 2), sin (r / 2) * cos (y / 2),
      sin (r / 2) * sin (y / 2), cos (r / 2) * sin (y / 2))"
    using u by (rule quat_Normalize_unit)
  then show ?thesis by (simp add: quat_from_Euler_def Let_def)
qed

lemma Euler_pitch0 [simp]:
  "Euler (Quaterniond r 0 y) = \<lparr>X = Normalize r, Y = 0, Z = Normalize y\<rparr>"
proof -
  let ?c = "cos (r / 2)" and ?s = "sin (r / 2)" and ?C = "cos (y / 2)" and ?S = "sin (y / 2)"
  let ?w = "?c * ?C" and ?x = "?s * ?C" and ?y = "?s * ?S" and ?z = "?c * ?S"
  note up = unit_products[OF half_angle(1)[of r] half_angle(1)[of y]]
  have sarg: "- 2 * (?x * ?z - ?w * ?y) = 0" by simp
  have sr: "2 * (?y * ?z + ?w * ?x) = sin r"
    using up(2) by (simp only: half_angle(2))
  have cr: "?w * ?w - ?x * ?x - ?y * ?y + ?z * ?z = cos r"
    using up(3) by (simp only: half_angle(3))
  have sy: "2 * (?x * ?y + ?w * ?z) = sin y"
    using up(4) by (simp only: half_angle(2))
  have cy: "?w * ?w + ?x * ?x - ?y * ?y - ?z * ?z = cos y"
    using up(5) by (simp only: half_angle(3))
  have "quat_Euler (?w, ?x, ?y, ?z) = \<lparr>X = atan2 (sin r) (cos r), Y = 0, Z = atan2 (sin y) (cos y)\<rparr>"
    unfolding quat_Euler_def quat_Normalize_unit[OF up(1)]
    by (simp only: prod.case Let_def sarg sr cr sy cy) simp
  then show ?thesis
    by (simp add: Euler_def quat_from_Euler_pitch0 Normalize_def)
qed

lemma Euler_yaw_bounds: "- pi < Z (Euler q) \<and> Z (Euler q) \<le> pi"
proof (cases q)
  case (Quaterniond r p y)
  obtain w x y' z where n: "quat_Normalize (quat_from_Euler r p y) = (w, x, y', z)"
    by (cases "quat_Normalize (quat_from_Euler r p y)") auto
  have "Z (quat_Euler (quat_from_Euler r p y)) = 0
      \<or> Z (quat_Euler (quat_from_Euler r p y))
           = atan2 (2 * (x * y' + w * z)) (w * w + x * x - y' * y' - z * z)"
    by (simp add: quat_Euler_def n Let_def)
  with atan2_bounds[of "2 * (x * y' + w * z)" "w * w + x * x - y' * y' - z * z"] pi_gt_zero
  show ?thesis
    unfolding Quaterniond Euler_def Quaterniond.case by linarith
qed

lemma Normalize_Euler_yaw [simp]: "Normalize (Z (Euler q)) = Z (Euler q)"
  using Euler_yaw_bounds[of q] by (simp add: Normalize_id)

lemma Normalize_zero [simp]: "Normalize 0 = 0"
  by (simp add: Normalize_def atan2_def)

lemma Euler_zero [simp]: "Euler (Quaterniond 0 0 0) = \<lparr>X = 0, Y = 0, Z = 0\<rparr>"
  by simp

section \<open>The loaded controller\<close>

lemma Load_defaults:
  "Load \<lparr>sdf_follow_mode = Some mode, sdf_linear_tolerance = None, sdf_linear_velocity = None,
         sdf_angular_tolerance = None, sdf_angular_velocity = None,
         sdf_animation_factor = None, sdf_default_rotation = None\<rparr>
     [WALKING_ANIMATION, STANDING_ANIMATION] constructed
   = Inr (loaded_plugin mode)"
  by (simp add: Load_def Reset_def vector_at_def value_or_def IGN_DTOR_def Let_def
        constructed_def loaded_plugin_def origin_def)

section \<open>The tick always returns\<close>

lemma ChooseNewTarget_guarded:
  "idx s < length (target_poses s) - 1 \<Longrightarrow>
   ChooseNewTarget s = Inr (s\<lparr>idx := idx s + 1, target_pose := target_poses s ! (idx s + 1)\<rparr>)"
  by (simp add: ChooseNewTarget_def vector_at_def Let_def)

lemma select_target_total: "\<exists>s' p. select_target s pose = Inr (s', p)"
  by (simp add: select_target_def Let_def ChooseNewTarget_guarded)

lemma follow_path_total: "\<exists>r. follow_path s pose rpy dt od = Inr r"
proof -
  obtain s' p where "select_target s pose = Inr (s', p)"
    using select_target_total by blast
  then show ?thesis by (simp add: follow_path_def Let_def)
qed

lemma OnUpdate_total: "\<exists>s'. OnUpdate info s = Inr s'"
proof -
  obtain r where "follow_path s (actor_WorldPose s) (Euler (RotP (actor_WorldPose s)))
      (simTime info - last_update s)
      \<lparr>frame_id = ''map'', position_x = X (PosP (actor_WorldPose s)),
        position_y = Y (PosP (actor_WorldPose s)),
        odom_orientation =
          Quaterniond 0 0 (Z (Euler (RotP (actor_WorldPose s))) - default_rotation s),
        twist_linear_x = 0, twist_linear_y = 0, twist_angular_z = Fin 0\<rparr> = Inr r"
    using follow_path_total by blast
  then show ?thesis
    by (simp add: OnUpdate_def Let_def split: prod.splits)
qed

lemma finish_update_fields [simp]:
  "target_poses (finish_update info s pose od) = target_poses s"
  "idx (finish_update info s pose od) = idx s"
  "target_pose (finish_update info s pose od) = target_pose s"
  "abort (finish_update info s pose od) = abort s"
  "follow_mode (finish_update info s pose od) = follow_mode s"
  "actor_WorldPose (finish_update info s pose od) = pose"
  "actor_pub (finish_update info s pose od) = actor_pub s @ [od]"
  "last_update (finish_update info s pose od) = simTime info"
  "trajectoryInfo_type (finish_update info s pose od) = trajectoryInfo_type s"
  "cmd_queue (finish_update info s pose od) = cmd_queue s"
  "target_vel (finish_update info s pose od) = target_vel s"
  "default_rotation (finish_update info s pose od) = default_rotation s"
  "actor_ScriptTime (finish_update info s pose od) =
     actor_ScriptTime s
       + Length3 (minus3 (PosP pose) (PosP (actor_WorldPose s))) * animation_factor s"
  by (simp_all add: finish_update_def Let_def)

section \<open>The target index stays inside the waypoint list\<close>

lemma select_target_idx_ok:
  "idx_ok s \<Longrightarrow> select_target s pose = Inr (s', p) \<Longrightarrow> idx_ok s'"
  by (auto simp: select_target_def Let_def ChooseNewTarget_guarded idx_ok_def split: if_splits)

lemma follow_path_state:
  "follow_path s pose rpy dt od = Inr (s', pose', od') \<Longrightarrow>
     \<exists>p. select_target s pose = Inr (s', p)"
  by (auto simp: follow_path_def Let_def split: sum.splits if_splits)

lemma follow_velocity_state:
  "follow_velocity s pose rpy dt od = (s', pose', od') \<Longrightarrow>
     target_poses s' = target_poses s \<and> idx s' = idx s"
  by (auto simp: follow_velocity_def Let_def split: if_splits)

lemma OnUpdate_idx_ok:
  assumes "idx_ok s" and "OnUpdate info s = Inr s'"
  shows "idx_ok s'"
proof (cases "follow_mode s = ''path''")
  case True
  with assms(2) obtain s1 pose1 od1 where
    fp: "follow_path s (actor_WorldPose s) (Euler (RotP (actor_WorldPose s)))
          (simTime info - last_update s)
          \<lparr>frame_id = ''map'', position_x = X (PosP (actor_WorldPose s)),
            position_y = Y (PosP (actor_WorldPose s)),
            odom_orientation =
              Quaterniond 0 0 (Z (Euler (RotP (actor_WorldPose s))) - default_rotation s),
            twist_linear_x = 0, twist_linear_y = 0, twist_angular_z = Fin 0\<rparr>
          = Inr (s1, pose1, od1)"
    and s': "s' = finish_update info s1 pose1 od1"
    by (auto simp: OnUpdate_def Let_def split: sum.splits)
  from follow_path_state[OF fp] obtain p where
    "select_target s (actor_WorldPose s) = Inr (s1, p)"
    by blast
  with assms(1) have "idx_ok s1" by (rule select_target_idx_ok)
  then show ?thesis by (simp add: s' idx_ok_def)
next
  case False
  with assms show ?thesis
    by (auto simp: OnUpdate_def Let_def idx_ok_def split: if_splits prod.splits
             dest!: follow_velocity_state)
qed

lemma Reset_ok: "\<exists>s'. Reset anims s = Inr s' \<and> idx_ok s'"
  by (simp add: Reset_def Let_def vector_at_def idx_ok_def)

lemma PathCallback_idx_ok: "idx_ok (PathCallback g poses s)"
  by (simp add: PathCallback_def Let_def idx_ok_def)

lemma apply_event_ok:
  assumes "idx_ok s"
  shows "\<exists>s'. apply_event g e s = Inr s' \<and> idx_ok s'"
proof (cases e)
  case (Vel m)
  with assms show ?thesis by (simp add: apply_event_def VelCallback_def Let_def idx_ok_def)
next
  case (PathCmd p)
  then show ?thesis by (simp add: apply_event_def PathCallback_idx_ok)
next
  case (Abort b)
  with assms show ?thesis by (simp add: apply_event_def AbortCallback_def idx_ok_def)
next
  case (Update info)
  obtain s' where "OnUpdate info s = Inr s'" using OnUpdate_total by blast
  with assms Update show ?thesis by (auto simp: apply_event_def dest: OnUpdate_idx_ok)
next
  case (ResetEv a)
  then show ?thesis by (simp add: apply_event_def Reset_ok)
qed

lemma run_ok: "idx_ok s \<Longrightarrow> \<exists>s'. run g s es = Inr s' \<and> idx_ok s'"
proof (induction es arbitrary: s)
  case Nil
  then show ?case by simp
next
  case (Cons e es)
  from apply_event_ok[OF Cons.prems] obtain s1 where
    "apply_event g e s = Inr s1" "idx_ok s1" by blast
  with Cons.IH[of s1] show ?case by simp
qed

lemma run_after_Reset: "\<exists>s'. run g s (ResetEv anims # es) = Inr s' \<and> idx_ok s'"
proof -
  obtain s1 where "Reset anims s = Inr s1" "idx_ok s1" using Reset_ok by blast
  with run_ok[of s1 g es] show ?thesis by (simp add: apply_event_def)
qed

lemma unit_heading_zero [simp]: "unit_heading (0, 0) = (0, 0)"
  by (simp add: unit_heading_def Length2_def)

lemma angular_displacement_zero [simp]: "angular_displacement s rpy (0, 0) = 0"
  by (simp add: angular_displacement_def Length2_def)

text \<open>
  The first branch of the path tick: with the abort flag set or no waypoint, the list is
  cleared without being read, the target becomes the actor's position and the actor
  stays where it is. The clip is the one set at the top of the branch.
\<close>

lemma hold_branch:
  assumes "follow_mode s = ''path''" and "abort s \<or> target_poses s = []"
  shows "\<exists>s'. OnUpdate info s = Inr s' \<and> target_poses s' = [] \<and> idx s' = 0
           \<and> PosP (actor_WorldPose s') = PosP (actor_WorldPose s)
           \<and> X (target_pose s') = X (PosP (actor_WorldPose s))
           \<and> Y (target_pose s') = Y (PosP (actor_WorldPose s))
           \<and> abort s' = abort s
           \<and> follow_mode s' = follow_mode s
           \<and> trajectoryInfo_type s' = WALKING_ANIMATION"
proof -
  have st: "select_target s (actor_WorldPose s) =
      Inr (s\<lparr>trajectoryInfo_type := WALKING_ANIMATION, target_poses := [],
             target_pose := (target_pose s)\<lparr>X := X (PosP (actor_WorldPose s)),
                                            Y := Y (PosP (actor_WorldPose s))\<rparr>,
             idx := 0\<rparr>, (0, 0))"
    using assms(2) by (auto simp: select_target_def Let_def)
  show ?thesis
    using assms(1) by (simp add: OnUpdate_def follow_path_def st Let_def)
qed

text \<open>
  Claim C4, amended. Take the commands one at a time, each applied whole between two
  ticks, and a controller whose \<^verbatim>\<open>Reset\<close> found both clips. In a run that starts with
  that \<^verbatim>\<open>Reset\<close> (as \<^verbatim>\<open>Load\<close> does before it connects the tick), whatever commands
  and ticks follow, no step throws and the target index is a valid position of the
  waypoint list whenever the list is not empty. A tick on its own never throws
  \<^verbatim>\<open>out_of_range\<close>: its one read of the list, in \<^verbatim>\<open>ChooseNewTarget\<close>, is in bounds.
  With the abort flag set or the list empty, the path tick takes the branch that holds
  the position: the list is left empty, the index is 0, the target is the actor's own
  position and the actor does not move.
\<close>

theorem target_index_in_bounds:
  "(WALKING_ANIMATION \<in> set anims \<and> STANDING_ANIMATION \<in> set anims \<longrightarrow>
      (\<exists>s'. run getYaw s (ResetEv anims # evs) = Inr s' \<and> idx_ok s')) \<and>
   (\<exists>s'. OnUpdate info s = Inr s') \<and>
   (follow_mode s = ''path'' \<and> (abort s \<or> target_poses s = []) \<longrightarrow>
      (\<exists>s'. OnUpdate info s = Inr s' \<and> target_poses s' = [] \<and> idx s' = 0
         \<and> PosP (actor_WorldPose s') = PosP (actor_WorldPose s)
         \<and> X (target_pose s') = X (PosP (actor_WorldPose s))
         \<and> Y (target_pose s') = Y (PosP (actor_WorldPose s))))"
proof (intro conjI impI)
  show "\<exists>s'. run getYaw s (ResetEv anims # evs) = Inr s' \<and> idx_ok s'"
    by (rule run_after_Reset)
  show "\<exists>s'. OnUpdate info s = Inr s'"
    by (rule OnUpdate_total)
next
  assume h: "follow_mode s = ''path'' \<and> (abort s \<or> target_poses s = [])"
  then have "follow_mode s = ''path''" and "abort s \<or> target_poses s = []" by simp_all
  from hold_branch[OF this, of info]
  show "\<exists>s'. OnUpdate info s = Inr s' \<and> target_poses s' = [] \<and> idx s' = 0
         \<and> PosP (actor_WorldPose s') = PosP (actor_WorldPose s)
         \<and> X (target_pose s') = X (PosP (actor_WorldPose s))
         \<and> Y (target_pose s') = Y (PosP (actor_WorldPose s))"
    by blast
qed

theorem target_index_in_bounds_witness:
  "WALKING_ANIMATION \<in> set [''walking'', ''standing''] \<and>
   STANDING_ANIMATION \<in> set [''walking'', ''standing''] \<and>
   follow_mode ((loaded_plugin ''path'')\<lparr>abort := True\<rparr>) = ''path'' \<and>
   abort ((loaded_plugin ''path'')\<lparr>abort := True\<rparr>) \<and>
   (\<exists>s'. OnUpdate \<lparr>simTime = 1\<rparr> ((loaded_plugin ''path'')\<lparr>abort := True\<rparr>) = Inr s'
       \<and> target_poses s' = [] \<and> idx s' = 0
       \<and> PosP (actor_WorldPose s') = origin) \<and>
   (\<exists>s'. run (\<lambda>q. 0) (loaded_plugin ''path'')
       [ResetEv [''walking'', ''standing''],
        PathCmd [\<lparr>position = \<lparr>X = 1, Y = 0, Z = 0\<rparr>, orientation = (0, 0, 0, 1)\<rparr>,
                 \<lparr>position = \<lparr>X = 2, Y = 0, Z = 0\<rparr>, orientation = (0, 0, 0, 1)\<rparr>]] = Inr s'
       \<and> target_poses s' \<noteq> [] \<and> idx s' < length (target_poses s'))"
proof -
  have run_eq: "\<And>s'. run (\<lambda>q. 0) (loaded_plugin ''path'')
       [ResetEv [''walking'', ''standing''],
        PathCmd [\<lparr>position = \<lparr>X = 1, Y = 0, Z = 0\<rparr>, orientation = (0, 0, 0, 1)\<rparr>,
                 \<lparr>position = \<lparr>X = 2, Y = 0, Z = 0\<rparr>, orientation = (0, 0, 0, 1)\<rparr>]] = Inr s'
       \<Longrightarrow> target_poses s' \<noteq> []"
    by (auto simp add: apply_event_def Reset_def PathCallback_def vector_at_def Let_def)
  show ?thesis
    using target_index_in_bounds [of "[''walking'', ''standing'']" "\<lambda>q. 0" "loaded_plugin ''path''"
        "[PathCmd [\<lparr>position = \<lparr>X = 1, Y = 0, Z = 0\<rparr>, orientation = (0, 0, 0, 1)\<rparr>,
                 \<lparr>position = \<lparr>X = 2, Y = 0, Z = 0\<rparr>, orientation = (0, 0, 0, 1)\<rparr>]]" "\<lparr>simTime = 1\<rparr>"]
      target_index_in_bounds [of "[]" "\<lambda>q. 0" "(loaded_plugin ''path'')\<lparr>abort := True\<rparr>" "[]"
        "\<lparr>simTime = 1\<rparr>"]
      run_eq
    by (auto simp add: idx_ok_def loaded_plugin_def)
qed

section \<open>The tick, branch by branch\<close>

lemma select_target_keeps:
  assumes "select_target s pose = Inr (s', p)"
  shows "follow_mode s' = follow_mode s" "actor_WorldPose s' = actor_WorldPose s"
    "actor_pub s' = actor_pub s" "default_rotation s' = default_rotation s"
    "lin_velocity s' = lin_velocity s" "ang_velocity s' = ang_velocity s"
    "ang_tolerance s' = ang_tolerance s" "lin_tolerance s' = lin_tolerance s"
    "animation_factor s' = animation_factor s" "abort s' = abort s"
    "last_update s' = last_update s" "actor_ScriptTime s' = actor_ScriptTime s"
    "cmd_queue s' = cmd_queue s" "target_vel s' = target_vel s"
  using assms
  by (auto simp: select_target_def Let_def ChooseNewTarget_guarded split: if_splits)

lemma select_target_far:
  assumes "\<not> abort s" "target_poses s \<noteq> []" "\<not> Length2 (to_target s) < lin_tolerance s"
  shows "select_target s (actor_WorldPose s) =
           Inr (s\<lparr>trajectoryInfo_type := WALKING_ANIMATION\<rparr>, to_target s)"
  using assms by (simp add: select_target_def to_target_def Let_def)

lemma select_target_next:
  assumes "\<not> abort s" "target_poses s \<noteq> []" "Length2 (to_target s) < lin_tolerance s"
    "idx s < length (target_poses s) - 1"
  shows "select_target s (actor_WorldPose s) =
           Inr (s\<lparr>trajectoryInfo_type := WALKING_ANIMATION, idx := idx s + 1,
                   target_pose := target_poses s ! (idx s + 1)\<rparr>,
                (X (target_poses s ! (idx s + 1)) - X (PosP (actor_WorldPose s)),
                 Y (target_poses s ! (idx s + 1)) - Y (PosP (actor_WorldPose s))))"
  using assms by (simp add: select_target_def to_target_def Let_def ChooseNewTarget_guarded)

lemma select_target_done:
  assumes "\<not> abort s" "target_poses s \<noteq> []" "Length2 (to_target s) < lin_tolerance s"
    "\<not> idx s < length (target_poses s) - 1"
  shows "select_target s (actor_WorldPose s) =
           Inr (s\<lparr>trajectoryInfo_type := STANDING_ANIMATION\<rparr>, (0, 0))"
  using assms by (simp add: select_target_def to_target_def Let_def)

lemma select_target_hold:
  assumes "abort s \<or> target_poses s = []"
  shows "select_target s (actor_WorldPose s) =
      Inr (s\<lparr>trajectoryInfo_type := WALKING_ANIMATION, target_poses := [],
             target_pose := (target_pose s)\<lparr>X := X (PosP (actor_WorldPose s)),
                                            Y := Y (PosP (actor_WorldPose s))\<rparr>,
             idx := 0\<rparr>, (0, 0))"
  using assms by (auto simp: select_target_def Let_def)

lemma path_tick_rotate:
  assumes "follow_mode s = ''path''"
    and "select_target s (actor_WorldPose s) = Inr (s1, p0)"
    and "\<bar>angular_displacement s (Euler (RotP (actor_WorldPose s))) (unit_heading p0)\<bar>
           > ang_tolerance s"
  shows "OnUpdate info s =
     Inr (finish_update info s1
           ((actor_WorldPose s)\<lparr>RotP := Quaterniond (default_rotation s) 0
              (Z (Euler (RotP (actor_WorldPose s)))
               + (if angular_displacement s (Euler (RotP (actor_WorldPose s))) (unit_heading p0) < 0
                  then - 1 else 1) * ang_velocity s * (simTime info - last_update s))\<rparr>)
           ((start_odom s)\<lparr>twist_angular_z :=
              Fin ((if angular_displacement s (Euler (RotP (actor_WorldPose s))) (unit_heading p0) < 0
                    then - 1 else 1) * ang_velocity s)\<rparr>))"
proof -
  have ad: "angular_displacement s1 = angular_displacement s"
    by (simp add: angular_displacement_def fun_eq_iff select_target_keeps[OF assms(2)])
  show ?thesis
    using assms(1,3)
    by (simp add: OnUpdate_def follow_path_def assms(2) Let_def ad start_odom_def
          select_target_keeps[OF assms(2)])
qed

lemma path_tick_move:
  assumes "follow_mode s = ''path''"
    and "select_target s (actor_WorldPose s) = Inr (s1, p0)"
    and "\<not> \<bar>angular_displacement s (Euler (RotP (actor_WorldPose s))) (unit_heading p0)\<bar>
           > ang_tolerance s"
  shows "OnUpdate info s =
     Inr (finish_update info s1
           ((actor_WorldPose s)
              \<lparr>PosP := (PosP (actor_WorldPose s))
                 \<lparr>X := X (PosP (actor_WorldPose s))
                        + fst (unit_heading p0) * lin_velocity s * (simTime info - last_update s),
                  Y := Y (PosP (actor_WorldPose s))
                        + snd (unit_heading p0) * lin_velocity s * (simTime info - last_update s)\<rparr>,
               RotP := Quaterniond (default_rotation s) 0
                 (Z (Euler (RotP (actor_WorldPose s)))
                  + angular_displacement s (Euler (RotP (actor_WorldPose s))) (unit_heading p0))\<rparr>)
           ((start_odom s)
              \<lparr>twist_linear_x := fst (unit_heading p0) * lin_velocity s,
               twist_linear_y := snd (unit_heading p0) * lin_velocity s,
               twist_angular_z :=
                 fdiv (angular_displacement s (Euler (RotP (actor_WorldPose s))) (unit_heading p0))
                      (simTime info - last_update s)\<rparr>))"
proof -
  have ad: "angular_displacement s1 = angular_displacement s"
    by (simp add: angular_displacement_def fun_eq_iff select_target_keeps[OF assms(2)])
  show ?thesis
    using assms(1,3)
    by (simp add: OnUpdate_def follow_path_def assms(2) Let_def ad start_odom_def
          select_target_keeps[OF assms(2)])
qed

section \<open>Velocity following\<close>

lemma velocity_tick_empty:
  assumes "follow_mode s = ''velocity''" "cmd_queue s = []"
  shows "OnUpdate info s =
     Inr (finish_update info (s\<lparr>trajectoryInfo_type := WALKING_ANIMATION\<rparr>)
           ((actor_WorldPose s)
              \<lparr>PosP := (PosP (actor_WorldPose s))
                 \<lparr>X := X (PosP (actor_WorldPose s))
                        + X (PosP (target_vel s)) * cos (heading s) * (simTime info - last_update s),
                  Y := Y (PosP (actor_WorldPose s))
                        + X (PosP (target_vel s)) * sin (heading s) * (simTime info - last_update s)\<rparr>,
               RotP := Quaterniond (default_rotation s) 0
                 (Z (Euler (RotP (actor_WorldPose s)))
                  + Z (Euler (RotP (target_vel s))) * (simTime info - last_update s))\<rparr>)
           ((start_odom s)
              \<lparr>twist_linear_x := X (PosP (target_vel s)) * cos (heading s),
               twist_linear_y := X (PosP (target_vel s)) * sin (heading s),
               twist_angular_z := Fin (Z (Euler (RotP (target_vel s))))\<rparr>))"
  using assms
  by (simp add: OnUpdate_def follow_velocity_def Let_def heading_def start_odom_def)

lemma velocity_tick_cmd:
  assumes "follow_mode s = ''velocity''" "cmd_queue s = c # q"
  shows "OnUpdate info s =
     Inr (finish_update info
           (s\<lparr>trajectoryInfo_type := WALKING_ANIMATION,
              target_vel := (target_vel s)\<lparr>PosP := (PosP (target_vel s))\<lparr>X := X c\<rparr>,
                                           RotP := Quaterniond 0 0 (Z c)\<rparr>,
              cmd_queue := q\<rparr>)
           ((actor_WorldPose s)
              \<lparr>PosP := (PosP (actor_WorldPose s))
                 \<lparr>X := X (PosP (actor_WorldPose s))
                        + X c * cos (heading s) * (simTime info - last_update s),
                  Y := Y (PosP (actor_WorldPose s))
                        + X c * sin (heading s) * (simTime info - last_update s)\<rparr>,
               RotP := Quaterniond (default_rotation s) 0
                 (Z (Euler (RotP (actor_WorldPose s)))
                  + Z (Euler (Quaterniond 0 0 (Z c))) * (simTime info - last_update s))\<rparr>)
           ((start_odom s)
              \<lparr>twist_linear_x := X c * cos (heading s),
               twist_linear_y := X c * sin (heading s),
               twist_angular_z := Fin (Z (Euler (Quaterniond 0 0 (Z c))))\<rparr>))"
  using assms
  by (simp add: OnUpdate_def follow_velocity_def Let_def heading_def start_odom_def)

lemma held_tick:
  assumes "held v s"
  shows "\<exists>s' od. OnUpdate info s = Inr s' \<and> held v s'
     \<and> X (PosP (actor_WorldPose s')) =
         X (PosP (actor_WorldPose s)) + v * cos (heading s) * (simTime info - last_update s)
     \<and> Y (PosP (actor_WorldPose s')) =
         Y (PosP (actor_WorldPose s)) + v * sin (heading s) * (simTime info - last_update s)
     \<and> heading s' = heading s
     \<and> last_update s' = simTime info
     \<and> actor_pub s' = actor_pub s @ [od]
     \<and> odom_orientation od = Quaterniond 0 0 (heading s)"
proof -
  from assms have mode: "follow_mode s = ''velocity''" by (simp add: held_def)
  from assms consider
    (cmd) "cmd_queue s = [\<lparr>X = v, Y = 0, Z = 0\<rparr>]"
    | (hold) "cmd_queue s = []" "X (PosP (target_vel s)) = v" "Z (Euler (RotP (target_vel s))) = 0"
    by (auto simp: held_def)
  then show ?thesis
  proof cases
    case cmd
    show ?thesis
      unfolding velocity_tick_cmd[OF mode cmd]
      by (simp add: held_def heading_def mode start_odom_def)
  next
    case hold
    show ?thesis
      unfolding velocity_tick_empty[OF mode hold(1)]
      by (simp add: held_def heading_def mode hold start_odom_def)
  qed
qed

lemma advanced_refl: "held v s \<Longrightarrow> advanced v s s []"
  by (simp add: advanced_def)

lemma advanced_trans:
  assumes "advanced v s s1 o1" "advanced v s1 s2 o2"
  shows "advanced v s s2 (o1 @ o2)"
proof -
  from assms have h: "heading s1 = heading s" by (simp add: advanced_def)
  have x: "X (PosP (actor_WorldPose s2)) =
         X (PosP (actor_WorldPose s)) + v * cos (heading s) * (last_update s2 - last_update s)"
  proof -
    from assms(2) have "X (PosP (actor_WorldPose s2)) =
         X (PosP (actor_WorldPose s1)) + v * cos (heading s) * (last_update s2 - last_update s1)"
      by (simp add: advanced_def h)
    moreover from assms(1) have "X (PosP (actor_WorldPose s1)) =
         X (PosP (actor_WorldPose s)) + v * cos (heading s) * (last_update s1 - last_update s)"
      by (simp add: advanced_def)
    ultimately show ?thesis by (simp add: algebra_simps)
  qed
  have y: "Y (PosP (actor_WorldPose s2)) =
         Y (PosP (actor_WorldPose s)) + v * sin (heading s) * (last_update s2 - last_update s)"
  proof -
    from assms(2) have "Y (PosP (actor_WorldPose s2)) =
         Y (PosP (actor_WorldPose s1)) + v * sin (heading s) * (last_update s2 - last_update s1)"
      by (simp add: advanced_def h)
    moreover from assms(1) have "Y (PosP (actor_WorldPose s1)) =
         Y (PosP (actor_WorldPose s)) + v * sin (heading s) * (last_update s1 - last_update s)"
      by (simp add: advanced_def)
    ultimately show ?thesis by (simp add: algebra_simps)
  qed
  from assms have rest: "held v s2" "heading s2 = heading s"
    "actor_pub s2 = actor_pub s @ (o1 @ o2)"
    "\<forall>od \<in> set (o1 @ o2). odom_orientation od = Quaterniond 0 0 (heading s)"
    by (auto simp: advanced_def)
  show ?thesis
    unfolding advanced_def using x y rest by (intro conjI)
qed

lemma held_tick2:
  assumes "held v s"
  shows "\<exists>s' od. OnUpdate info s = Inr s' \<and> last_update s' = simTime info
           \<and> advanced v s s' [od]"
proof -
  from held_tick[OF assms, of info] show ?thesis
    unfolding advanced_def by (elim exE conjE) (intro exI conjI, simp_all)
qed

lemma held_run:
  assumes "held v s"
  shows "\<exists>s' ods. run g s (map Update infos) = Inr s'
     \<and> last_update s' = (if infos = [] then last_update s else simTime (last infos))
     \<and> length ods = length infos
     \<and> advanced v s s' ods"
  using assms
proof (induction infos arbitrary: s)
  case Nil
  then show ?case by (simp add: advanced_refl)
next
  case (Cons i infos)
  from held_tick2[OF Cons.prems, of i] obtain s1 od where
    t: "OnUpdate i s = Inr s1" "last_update s1 = simTime i" "advanced v s s1 [od]"
    by (elim exE conjE)
  from t(3) have "held v s1" by (simp add: advanced_def)
  from Cons.IH[OF this] obtain s' ods where
    r: "run g s1 (map Update infos) = Inr s'"
       "last_update s' = (if infos = [] then last_update s1 else simTime (last infos))"
       "length ods = length infos" "advanced v s1 s' ods"
    by (elim exE conjE)
  have run: "run g s (map Update (i # infos)) = Inr s'"
    by (simp add: apply_event_def t(1) r(1))
  have lu: "last_update s' = (if i # infos = [] then last_update s else simTime (last (i # infos)))"
    using r(2) t(2) by simp
  have len: "length (od # ods) = length (i # infos)" using r(3) by simp
  have adv: "advanced v s s' (od # ods)"
    using advanced_trans[OF t(3) r(4)] by simp
  show ?case
    by (rule exI[of _ s'], rule exI[of _ "od # ods"]) (intro conjI run lu len adv)
qed

lemma held_after_VelCallback:
  assumes "follow_mode s = ''velocity''" "cmd_queue s = []"
  shows "held (X (linear msg)) (VelCallback msg s) \<longleftrightarrow> Z (angular msg) = 0"
  using assms by (auto simp: held_def VelCallback_def Let_def)

text \<open>
  Claim C8. In velocity mode, with no command waiting, a command with linear speed 1
  and angular rate 0 arrives and is held over one or more ticks. The position advances
  by exactly 1 times the elapsed time \<open>T\<close> (from the last update before the command to
  the last tick) along the direction of the heading that every one of these ticks
  reports in its odometry, whatever the default rotation is: the reported heading is
  the yaw less the default rotation, and the position is integrated along that same
  angle.
\<close>

theorem held_velocity_advances:
  assumes "follow_mode s = ''velocity''" and "cmd_queue s = []"
    and "X (linear msg) = 1" and "Z (angular msg) = 0" and "infos \<noteq> []"
  shows "\<exists>s' ods. run getYaw (VelCallback msg s) (map Update infos) = Inr s'
     \<and> X (PosP (actor_WorldPose s')) =
         X (PosP (actor_WorldPose s))
           + 1 * (simTime (last infos) - last_update s)
               * cos (Z (Euler (RotP (actor_WorldPose s))) - default_rotation s)
     \<and> Y (PosP (actor_WorldPose s')) =
         Y (PosP (actor_WorldPose s))
           + 1 * (simTime (last infos) - last_update s)
               * sin (Z (Euler (RotP (actor_WorldPose s))) - default_rotation s)
     \<and> actor_pub s' = actor_pub s @ ods
     \<and> length ods = length infos
     \<and> (\<forall>od \<in> set ods. odom_orientation od =
           Quaterniond 0 0 (Z (Euler (RotP (actor_WorldPose s))) - default_rotation s))"
proof -
  let ?s0 = "VelCallback msg s"
  have h0: "held 1 ?s0"
    using held_after_VelCallback[OF assms(1,2), of msg] assms(3,4) by simp
  have same: "actor_WorldPose ?s0 = actor_WorldPose s" "last_update ?s0 = last_update s"
    "actor_pub ?s0 = actor_pub s" "heading ?s0 = heading s"
    by (simp_all add: VelCallback_def Let_def heading_def)
  from held_run[OF h0, of getYaw infos] obtain s' ods where
    r: "run getYaw ?s0 (map Update infos) = Inr s'"
       "last_update s' = (if infos = [] then last_update ?s0 else simTime (last infos))"
       "length ods = length infos" "advanced 1 ?s0 s' ods"
    by (elim exE conjE)
  from r(2) assms(5) have lu: "last_update s' = simTime (last infos)" by simp
  from r(4) have
    x: "X (PosP (actor_WorldPose s')) =
         X (PosP (actor_WorldPose s)) + 1 * cos (heading s) * (simTime (last infos) - last_update s)"
    and y: "Y (PosP (actor_WorldPose s')) =
         Y (PosP (actor_WorldPose s)) + 1 * sin (heading s) * (simTime (last infos) - last_update s)"
    and pub: "actor_pub s' = actor_pub s @ ods"
    and ors: "\<forall>od \<in> set ods. odom_orientation od = Quaterniond 0 0 (heading s)"
    unfolding advanced_def same lu by simp_all
  have x': "X (PosP (actor_WorldPose s')) =
         X (PosP (actor_WorldPose s))
           + 1 * (simTime (last infos) - last_update s)
               * cos (Z (Euler (RotP (actor_WorldPose s))) - default_rotation s)"
    using x by (simp add: heading_def)
  have y': "Y (PosP (actor_WorldPose s')) =
         Y (PosP (actor_WorldPose s))
           + 1 * (simTime (last infos) - last_update s)
               * sin (Z (Euler (RotP (actor_WorldPose s))) - default_rotation s)"
    using y by (simp add: heading_def)
  have ors': "\<forall>od \<in> set ods. odom_orientation od =
           Quaterniond 0 0 (Z (Euler (RotP (actor_WorldPose s))) - default_rotation s)"
    using ors by (simp add: heading_def)
  show ?thesis
    by (rule exI[of _ s'], rule exI[of _ ods]) (intro conjI r(1) x' y' pub r(3) ors')
qed

theorem held_velocity_advances_witness:
  "follow_mode ((loaded_plugin ''velocity'')\<lparr>default_rotation := pi / 2\<rparr>) = ''velocity'' \<and>
   cmd_queue ((loaded_plugin ''velocity'')\<lparr>default_rotation := pi / 2\<rparr>) = [] \<and>
   (\<exists>s' ods. run (\<lambda>q. 0)
        (VelCallback \<lparr>linear = \<lparr>X = 1, Y = 0, Z = 0\<rparr>, angular = origin\<rparr>
           ((loaded_plugin ''velocity'')\<lparr>default_rotation := pi / 2\<rparr>))
        (map Update [\<lparr>simTime = 1\<rparr>, \<lparr>simTime = 3\<rparr>]) = Inr s'
      \<and> X (PosP (actor_WorldPose s')) = 0
      \<and> Y (PosP (actor_WorldPose s')) = - 3
      \<and> actor_pub s' = ods
      \<and> length ods = 2
      \<and> (\<forall>od \<in> set ods. odom_orientation od = Quaterniond 0 0 (- (pi / 2))))"
  using held_velocity_advances
    [of "(loaded_plugin ''velocity'')\<lparr>default_rotation := pi / 2\<rparr>"
        "\<lparr>linear = \<lparr>X = 1, Y = 0, Z = 0\<rparr>, angular = origin\<rparr>"
        "[\<lparr>simTime = 1\<rparr>, \<lparr>simTime = 3\<rparr>]" "\<lambda>q. 0"]
  by (simp add: loaded_plugin_def origin_def numeral_2_eq_2)

section \<open>What a velocity command can influence\<close>

lemma VelCallback_equiv:
  "X (linear a) = X (linear b) \<Longrightarrow> Z (angular a) = Z (angular b) \<Longrightarrow>
     VelCallback a s = VelCallback b s"
  by (simp add: VelCallback_def Let_def)

lemma apply_event_equiv:
  assumes "event_equiv e1 e2"
  shows "apply_event g e1 s = apply_event g e2 s"
proof (cases e1)
  case (Vel a)
  show ?thesis
  proof (cases e2)
    case (Vel b)
    with \<open>e1 = Vel a\<close> assms have "VelCallback a s = VelCallback b s"
      by (intro VelCallback_equiv) simp_all
    with Vel \<open>e1 = Vel a\<close> show ?thesis by (simp add: apply_event_def)
  qed (use assms Vel in simp_all)
qed (use assms in simp_all)

text \<open>
  Claim C10. Of a velocity command only \<^verbatim>\<open>linear.x\<close> and \<^verbatim>\<open>angular.z\<close> reach the
  controller. Two streams of events that agree event by event, the velocity commands
  agreeing on these two components and differing at will in \<^verbatim>\<open>linear.y\<close>,
  \<^verbatim>\<open>linear.z\<close>, \<^verbatim>\<open>angular.x\<close> and \<^verbatim>\<open>angular.y\<close>, lead from the same state to the same
  outcome: the same controller state, so the same pose of the actor and the same list
  of published odometry messages. As this holds for every stream it holds after every
  tick of the stream.
\<close>

theorem velocity_command_noninterference:
  "list_all2 event_equiv es1 es2 \<Longrightarrow> run getYaw s es1 = run getYaw s es2"
proof (induction es1 es2 arbitrary: s rule: list_all2_induct)
  case Nil
  then show ?case by simp
next
  case (Cons e1 es1 e2 es2)
  then show ?case by (simp add: apply_event_equiv split: sum.splits)
qed

theorem velocity_command_noninterference_witness:
  "list_all2 event_equiv
     [Vel \<lparr>linear = \<lparr>X = 1, Y = 0, Z = 0\<rparr>, angular = \<lparr>X = 0, Y = 0, Z = 1 / 2\<rparr>\<rparr>,
      Update \<lparr>simTime = 1\<rparr>]
     [Vel \<lparr>linear = \<lparr>X = 1, Y = 5, Z = 7\<rparr>, angular = \<lparr>X = 3, Y = 4, Z = 1 / 2\<rparr>\<rparr>,
      Update \<lparr>simTime = 1\<rparr>] \<and>
   run (\<lambda>q. 0) (loaded_plugin ''velocity'')
     [Vel \<lparr>linear = \<lparr>X = 1, Y = 0, Z = 0\<rparr>, angular = \<lparr>X = 0, Y = 0, Z = 1 / 2\<rparr>\<rparr>,
      Update \<lparr>simTime = 1\<rparr>] =
   run (\<lambda>q. 0) (loaded_plugin ''velocity'')
     [Vel \<lparr>linear = \<lparr>X = 1, Y = 5, Z = 7\<rparr>, angular = \<lparr>X = 3, Y = 4, Z = 1 / 2\<rparr>\<rparr>,
      Update \<lparr>simTime = 1\<rparr>]"
proof -
  have h: "list_all2 event_equiv
     [Vel \<lparr>linear = \<lparr>X = 1, Y = 0, Z = 0\<rparr>, angular = \<lparr>X = 0, Y = 0, Z = 1 / 2\<rparr>\<rparr>,
      Update \<lparr>simTime = 1\<rparr>]
     [Vel \<lparr>linear = \<lparr>X = 1, Y = 5, Z = 7\<rparr>, angular = \<lparr>X = 3, Y = 4, Z = 1 / 2\<rparr>\<rparr>,
      Update \<lparr>simTime = 1\<rparr>]"
    by simp
  from h velocity_command_noninterference[OF h, of "\<lambda>q. 0" "loaded_plugin ''velocity''"]
  show ?thesis by (rule conjI)
qed

section \<open>Lengths and angles\<close>

lemma Length2_zero [simp]: "Length2 (0, 0) = 0"
  by (simp add: Length2_def)

lemma Length2_nonneg: "0 \<le> Length2 p"
  by (simp add: Length2_def)

lemma Length2_eq_0_iff: "Length2 p = 0 \<longleftrightarrow> p = (0, 0)"
proof -
  have "fst p * fst p + snd p * snd p = 0 \<longleftrightarrow> fst p = 0 \<and> snd p = 0"
    by (simp add: sum_squares_eq_zero_iff)
  then show ?thesis
    by (cases p) (simp add: Length2_def)
qed

lemma Length2_axis_x [simp]: "Length2 (a, 0) = \<bar>a\<bar>"
  by (simp add: Length2_def)

lemma Length2_axis_y [simp]: "Length2 (0, b) = \<bar>b\<bar>"
  by (simp add: Length2_def)

lemma Length2_scale: "Length2 (k * a, k * b) = \<bar>k\<bar> * Length2 (a, b)"
proof -
  have "k * a * (k * a) + k * b * (k * b) = (k * k) * (a * a + b * b)"
    by (simp add: algebra_simps)
  then show ?thesis
    by (simp add: Length2_def real_sqrt_mult)
qed

lemma Length2_unit_heading:
  assumes "Length2 p \<noteq> 0"
  shows "Length2 (unit_heading p) = 1"
proof -
  have pos: "0 < Length2 p" using assms Length2_nonneg[of p] by simp
  have "unit_heading p = (1 / Length2 p * fst p, 1 / Length2 p * snd p)"
    using assms by (simp add: unit_heading_def)
  then have "Length2 (unit_heading p) = \<bar>1 / Length2 p\<bar> * Length2 (fst p, snd p)"
    by (simp only: Length2_scale)
  also have "\<dots> = 1" using pos by simp
  finally show ?thesis .
qed

lemma unit_circle:
  assumes "Length2 (x, y) = 1"
  shows "x * x + y * y = 1"
proof -
  from assms have "sqrt (x * x + y * y) = 1" by (simp add: Length2_def)
  then show ?thesis by simp
qed

lemma cos_sin_atan2:
  assumes "x * x + y * y = 1"
  shows "cos (atan2 y x) = x \<and> sin (atan2 y x) = y"
proof -
  have sq: "x\<^sup>2 + y\<^sup>2 = 1" using assms by (simp add: power2_eq_square)
  consider (pos) "0 < x" | (neg) "x < 0" | (zero) "x = 0" by linarith
  then show ?thesis
  proof cases
    case pos
    have "1 + (y / x)\<^sup>2 = 1 / x\<^sup>2"
      using pos sq by (simp add: field_simps power2_eq_square)
    then have r: "sqrt (1 + (y / x)\<^sup>2) = 1 / x"
      using pos by (simp add: real_sqrt_divide)
    show ?thesis
      using pos by (simp add: atan2_def cos_arctan sin_arctan r)
  next
    case neg
    have "1 + (y / x)\<^sup>2 = 1 / x\<^sup>2"
      using neg sq by (simp add: field_simps power2_eq_square)
    then have r: "sqrt (1 + (y / x)\<^sup>2) = 1 / (- x)"
      using neg by (simp add: real_sqrt_divide)
    show ?thesis
      using neg by (simp add: atan2_def cos_arctan sin_arctan r)
  next
    case zero
    with assms have "y * y = 1" by simp
    then have "y = 1 \<or> y = - 1"
      by (simp add: square_eq_1_iff)
    then show ?thesis
      using zero by (auto simp: atan2_def)
  qed
qed

lemma cos_sin_Normalize: "cos (Normalize a) = cos a \<and> sin (Normalize a) = sin a"
proof -
  have "cos a * cos a + sin a * sin a = 1"
    using sin_cos_squared_add2[of a] by (simp add: power2_eq_square)
  from cos_sin_atan2[OF this] show ?thesis by (simp add: Normalize_def)
qed

section \<open>The abort flag\<close>

lemma abort_holds_position:
  assumes "follow_mode s = ''path''" "abort s"
  shows "\<exists>s'. run g s (map Update infos) = Inr s'
           \<and> PosP (actor_WorldPose s') = PosP (actor_WorldPose s)
           \<and> abort s' \<and> follow_mode s' = ''path''
           \<and> (infos \<noteq> [] \<longrightarrow> trajectoryInfo_type s' = WALKING_ANIMATION)"
  using assms
proof (induction infos arbitrary: s rule: rev_induct)
  case Nil
  then show ?case by simp
next
  case (snoc i infos)
  from snoc.IH[OF snoc.prems] obtain s1 where
    r: "run g s (map Update infos) = Inr s1"
       "PosP (actor_WorldPose s1) = PosP (actor_WorldPose s)" "abort s1" "follow_mode s1 = ''path''"
    by (elim exE conjE)
  from r(3) have "abort s1 \<or> target_poses s1 = []" by simp
  from hold_branch[OF r(4) this, of i] obtain s' where
    t: "OnUpdate i s1 = Inr s'" "PosP (actor_WorldPose s') = PosP (actor_WorldPose s1)"
       "abort s' = abort s1" "follow_mode s' = follow_mode s1"
       "trajectoryInfo_type s' = WALKING_ANIMATION"
    by (elim exE conjE)
  have app: "\<And>es1 es2 s0 sm. run g s0 es1 = Inr sm \<Longrightarrow> run g s0 (es1 @ es2) = run g sm es2"
  proof -
    fix es1 es2 s0 sm
    show "run g s0 es1 = Inr sm \<Longrightarrow> run g s0 (es1 @ es2) = run g sm es2"
      by (induction es1 arbitrary: s0) (auto split: sum.splits)
  qed
  have "run g s (map Update (infos @ [i])) = Inr s'"
    using app[OF r(1), of "[Update i]"] t(1) by (simp add: apply_event_def)
  with t r show ?case by simp
qed

text \<open>
  Claim C1, at a concrete input. The controller is heading for the waypoint \<open>(10, 0)\<close>
  when the abort flag is set. The next tick returns, leaves the position of the actor
  unchanged, and leaves the clip at "walking": the branch for the abort flag does not
  select "standing" (only the branch for the last waypoint reached does).
\<close>

theorem abort_tick_keeps_walking_clip:
  "\<not> isl (OnUpdate \<lparr>simTime = 1\<rparr> (AbortCallback True goal_ahead)) \<and>
   PosP (actor_WorldPose (projr (OnUpdate \<lparr>simTime = 1\<rparr> (AbortCallback True goal_ahead))))
     = PosP (actor_WorldPose goal_ahead) \<and>
   trajectoryInfo_type (projr (OnUpdate \<lparr>simTime = 1\<rparr> (AbortCallback True goal_ahead)))
     = WALKING_ANIMATION \<and>
   trajectoryInfo_type (projr (OnUpdate \<lparr>simTime = 1\<rparr> (AbortCallback True goal_ahead)))
     \<noteq> STANDING_ANIMATION"
proof -
  have m: "follow_mode (AbortCallback True goal_ahead) = ''path''"
    by (simp add: AbortCallback_def goal_ahead_def loaded_plugin_def)
  have a: "abort (AbortCallback True goal_ahead) \<or> target_poses (AbortCallback True goal_ahead) = []"
    by (simp add: AbortCallback_def)
  have p: "actor_WorldPose (AbortCallback True goal_ahead) = actor_WorldPose goal_ahead"
    by (simp add: AbortCallback_def)
  from hold_branch[OF m a, of "\<lparr>simTime = 1\<rparr>"] obtain s' where
    "OnUpdate \<lparr>simTime = 1\<rparr> (AbortCallback True goal_ahead) = Inr s'"
    "PosP (actor_WorldPose s') = PosP (actor_WorldPose (AbortCallback True goal_ahead))"
    "trajectoryInfo_type s' = WALKING_ANIMATION"
    by (elim exE conjE)
  then show ?thesis by (simp add: p)
qed

section \<open>A path command\<close>

lemma PathCallback_fields:
  "target_poses (PathCallback g poses s) =
     map (\<lambda>p. \<lparr>X = X (position p), Y = Y (position p), Z = g (orientation p)\<rparr>) poses"
  "idx (PathCallback g poses s) = 0"
  "abort (PathCallback g poses s) = False"
  "target_pose (PathCallback g poses s) = target_pose s"
  "actor_WorldPose (PathCallback g poses s) = actor_WorldPose s"
  "follow_mode (PathCallback g poses s) = follow_mode s"
  "lin_tolerance (PathCallback g poses s) = lin_tolerance s"
  "ang_tolerance (PathCallback g poses s) = ang_tolerance s"
  "default_rotation (PathCallback g poses s) = default_rotation s"
  by (simp_all add: PathCallback_def Let_def)

lemma after_goal_path:
  "follow_mode (PathCallback g goal_path (loaded_plugin ''path'')) = ''path''"
  "\<not> abort (PathCallback g goal_path (loaded_plugin ''path''))"
  "target_poses (PathCallback g goal_path (loaded_plugin ''path'')) \<noteq> []"
  "to_target (PathCallback g goal_path (loaded_plugin ''path'')) = (0, 0)"
  "lin_tolerance (PathCallback g goal_path (loaded_plugin ''path'')) = 1 / 10"
  "\<not> idx (PathCallback g goal_path (loaded_plugin ''path''))
      < length (target_poses (PathCallback g goal_path (loaded_plugin ''path''))) - 1"
  by (simp_all add: PathCallback_fields to_target_def goal_path_def loaded_plugin_def origin_def)

text \<open>
  Claim C2, at a concrete input. The loaded controller stands at the origin, its target.
  A path command with the one waypoint \<open>(10, 0)\<close> replaces the waypoint list, but the
  current target stays the origin: it is not the first waypoint of the new list. The
  next tick finds the actor at its target, with no further waypoint, and selects
  "standing" without moving.
\<close>

theorem path_command_keeps_old_target:
  "target_poses (PathCallback (\<lambda>q. 0) goal_path (loaded_plugin ''path''))
     = [\<lparr>X = 10, Y = 0, Z = 0\<rparr>] \<and>
   target_pose (PathCallback (\<lambda>q. 0) goal_path (loaded_plugin ''path'')) = origin \<and>
   target_pose (PathCallback (\<lambda>q. 0) goal_path (loaded_plugin ''path''))
     \<noteq> hd (target_poses (PathCallback (\<lambda>q. 0) goal_path (loaded_plugin ''path''))) \<and>
   \<not> isl (OnUpdate \<lparr>simTime = 1\<rparr> (PathCallback (\<lambda>q. 0) goal_path (loaded_plugin ''path''))) \<and>
   PosP (actor_WorldPose
     (projr (OnUpdate \<lparr>simTime = 1\<rparr> (PathCallback (\<lambda>q. 0) goal_path (loaded_plugin ''path'')))))
     = origin \<and>
   trajectoryInfo_type
     (projr (OnUpdate \<lparr>simTime = 1\<rparr> (PathCallback (\<lambda>q. 0) goal_path (loaded_plugin ''path''))))
     = STANDING_ANIMATION"
proof -
  let ?s = "PathCallback (\<lambda>q. 0) goal_path (loaded_plugin ''path'')"
  have fields: "target_poses ?s = [\<lparr>X = 10, Y = 0, Z = 0\<rparr>]" "target_pose ?s = origin"
    by (simp_all add: PathCallback_fields goal_path_def loaded_plugin_def)
  have ne: "target_pose ?s \<noteq> hd (target_poses ?s)"
    by (simp add: fields origin_def)
  have lt: "Length2 (to_target ?s) < lin_tolerance ?s"
    by (simp add: after_goal_path)
  note st = select_target_done[OF after_goal_path(2,3) lt after_goal_path(6)]
  have c: "\<not> \<bar>angular_displacement ?s (Euler (RotP (actor_WorldPose ?s))) (unit_heading (0, 0))\<bar>
             > ang_tolerance ?s"
    by (simp add: PathCallback_fields loaded_plugin_def)
  have pose: "PosP (actor_WorldPose ?s) = origin"
    by (simp add: PathCallback_fields loaded_plugin_def)
  have tick: "\<not> isl (OnUpdate \<lparr>simTime = 1\<rparr> ?s)"
    "PosP (actor_WorldPose (projr (OnUpdate \<lparr>simTime = 1\<rparr> ?s))) = origin"
    "trajectoryInfo_type (projr (OnUpdate \<lparr>simTime = 1\<rparr> ?s)) = STANDING_ANIMATION"
    unfolding path_tick_move[OF after_goal_path(1) st c]
    by (simp_all add: pose origin_def)
  from fields ne tick show ?thesis by (intro conjI)
qed

section \<open>A tick of no duration\<close>

lemma zero_dt_path:
  assumes "follow_mode s = ''path''" "simTime info = last_update s"
  shows "\<exists>s'. OnUpdate info s = Inr s' \<and> PosP (actor_WorldPose s') = PosP (actor_WorldPose s)
           \<and> actor_ScriptTime s' = actor_ScriptTime s"
proof -
  obtain s1 p0 where st: "select_target s (actor_WorldPose s) = Inr (s1, p0)"
    using select_target_total by blast
  note keep = select_target_keeps[OF st]
  show ?thesis
  proof (cases "\<bar>angular_displacement s (Euler (RotP (actor_WorldPose s))) (unit_heading p0)\<bar>
           > ang_tolerance s")
    case True
    show ?thesis
      unfolding path_tick_rotate[OF assms(1) st True]
      by (simp add: keep minus3_def Length3_def)
  next
    case False
    show ?thesis
      unfolding path_tick_move[OF assms(1) st False]
      by (simp add: keep assms(2) minus3_def Length3_def)
  qed
qed

lemma zero_dt_no_motion:
  assumes "simTime info = last_update s"
  shows "\<exists>s'. OnUpdate info s = Inr s' \<and> PosP (actor_WorldPose s') = PosP (actor_WorldPose s)
           \<and> actor_ScriptTime s' = actor_ScriptTime s"
proof (cases "follow_mode s = ''path''")
  case True
  then show ?thesis using assms by (rule zero_dt_path)
next
  case False
  show ?thesis
  proof (cases "follow_mode s = ''velocity''")
    case v: True
    show ?thesis
    proof (cases "cmd_queue s")
      case Nil
      show ?thesis
        unfolding velocity_tick_empty[OF v Nil]
        by (simp add: assms minus3_def Length3_def)
    next
      case (Cons c q)
      show ?thesis
        unfolding velocity_tick_cmd[OF v Cons]
        by (simp add: assms minus3_def Length3_def)
    qed
  next
    case nv: False
    with False show ?thesis
      by (simp add: OnUpdate_def Let_def minus3_def Length3_def)
  qed
qed

lemma fdiv_zero_zero [simp]: "fdiv 0 0 = NaN"
  by (simp add: fdiv_def)

lemma fdiv_by_zero: "fdiv a 0 \<noteq> Fin r"
  by (simp add: fdiv_def)

lemma loaded_path_facts:
  "follow_mode (loaded_plugin ''path'') = ''path''"
  "\<not> abort (loaded_plugin ''path'')"
  "target_poses (loaded_plugin ''path'') \<noteq> []"
  "Length2 (to_target (loaded_plugin ''path'')) < lin_tolerance (loaded_plugin ''path'')"
  "\<not> idx (loaded_plugin ''path'') < length (target_poses (loaded_plugin ''path'')) - 1"
  by (simp_all add: to_target_def loaded_plugin_def origin_def)

text \<open>
  Claim C5, at a concrete input. The first tick of the loaded path follower at simulation
  time 0 has \<open>dt = 0\<close>. It returns, and the angular twist it publishes is the quotient
  of the angular error 0 by \<open>dt = 0\<close>: not a number.
\<close>

theorem zero_dt_twist_is_NaN:
  "simTime \<lparr>simTime = 0\<rparr> - last_update (loaded_plugin ''path'') = 0 \<and>
   \<not> isl (OnUpdate \<lparr>simTime = 0\<rparr> (loaded_plugin ''path'')) \<and>
   twist_angular_z (last (actor_pub (projr (OnUpdate \<lparr>simTime = 0\<rparr> (loaded_plugin ''path'')))))
     = NaN"
proof -
  let ?s = "loaded_plugin ''path''"
  note st = select_target_done[OF loaded_path_facts(2,3,4,5)]
  have c: "\<not> \<bar>angular_displacement ?s (Euler (RotP (actor_WorldPose ?s))) (unit_heading (0, 0))\<bar>
             > ang_tolerance ?s"
    by (simp add: loaded_plugin_def)
  have dt: "simTime \<lparr>simTime = 0\<rparr> - last_update ?s = 0"
    by (simp add: loaded_plugin_def)
  have tick: "\<not> isl (OnUpdate \<lparr>simTime = 0\<rparr> ?s)"
    "twist_angular_z (last (actor_pub (projr (OnUpdate \<lparr>simTime = 0\<rparr> ?s)))) = NaN"
    unfolding path_tick_move[OF loaded_path_facts(1) st c]
    using dt by simp_all
  from dt tick show ?thesis by (intro conjI)
qed

section \<open>The clip a tick selects\<close>

lemma path_tick_state:
  assumes "follow_mode s = ''path''"
    and "select_target s (actor_WorldPose s) = Inr (s1, p0)"
  shows "\<exists>pose1 od1. OnUpdate info s = Inr (finish_update info s1 pose1 od1)"
proof (cases "\<bar>angular_displacement s (Euler (RotP (actor_WorldPose s))) (unit_heading p0)\<bar>
           > ang_tolerance s")
  case True
  from path_tick_rotate[OF assms True] show ?thesis by blast
next
  case False
  from path_tick_move[OF assms False] show ?thesis by blast
qed

lemma velocity_tick_clip:
  assumes "follow_mode s = ''velocity''"
  shows "\<exists>s'. OnUpdate info s = Inr s' \<and> trajectoryInfo_type s' = WALKING_ANIMATION"
proof (cases "cmd_queue s")
  case Nil
  show ?thesis unfolding velocity_tick_empty[OF assms Nil] by simp
next
  case (Cons c q)
  show ?thesis unfolding velocity_tick_cmd[OF assms Cons] by simp
qed

lemma path_tick_clip:
  assumes "follow_mode s = ''path''" "\<not> abort s" "target_poses s \<noteq> []"
  shows "\<exists>s'. OnUpdate info s = Inr s' \<and>
           trajectoryInfo_type s' =
             (if Length2 (to_target s) < lin_tolerance s \<and> \<not> idx s < length (target_poses s) - 1
              then STANDING_ANIMATION else WALKING_ANIMATION)"
proof -
  consider (far) "\<not> Length2 (to_target s) < lin_tolerance s"
    | (nxt) "Length2 (to_target s) < lin_tolerance s" "idx s < length (target_poses s) - 1"
    | (final) "Length2 (to_target s) < lin_tolerance s" "\<not> idx s < length (target_poses s) - 1"
    by blast
  then show ?thesis
  proof cases
    case far
    from path_tick_state[OF assms(1) select_target_far[OF assms(2,3) far], of info]
    obtain pose1 od1 where "OnUpdate info s =
      Inr (finish_update info (s\<lparr>trajectoryInfo_type := WALKING_ANIMATION\<rparr>) pose1 od1)"
      by (elim exE)
    with far show ?thesis by simp
  next
    case nxt
    from path_tick_state[OF assms(1) select_target_next[OF assms(2,3) nxt], of info]
    obtain pose1 od1 where "OnUpdate info s =
      Inr (finish_update info (s\<lparr>trajectoryInfo_type := WALKING_ANIMATION, idx := idx s + 1,
                   target_pose := target_poses s ! (idx s + 1)\<rparr>) pose1 od1)"
      by (elim exE)
    with nxt show ?thesis by simp
  next
    case final
    from path_tick_state[OF assms(1) select_target_done[OF assms(2,3) final], of info]
    obtain pose1 od1 where "OnUpdate info s =
      Inr (finish_update info (s\<lparr>trajectoryInfo_type := STANDING_ANIMATION\<rparr>) pose1 od1)"
      by (elim exE)
    with final show ?thesis by simp
  qed
qed

text \<open>
  Claim C9, amended. In velocity mode every tick selects the clip "walking", whatever
  the commanded motion is. In path mode, with the abort flag clear and a waypoint list
  that is not empty, a tick selects "standing" exactly when the actor is within the
  linear tolerance of its current target and no waypoint follows it, and "walking"
  otherwise.
\<close>

theorem clip_selection:
  "(follow_mode s = ''velocity'' \<longrightarrow>
      (\<exists>s'. OnUpdate info s = Inr s' \<and> trajectoryInfo_type s' = WALKING_ANIMATION)) \<and>
   (follow_mode s = ''path'' \<and> \<not> abort s \<and> target_poses s \<noteq> [] \<longrightarrow>
      (\<exists>s'. OnUpdate info s = Inr s' \<and>
         trajectoryInfo_type s' =
           (if Length2 (to_target s) < lin_tolerance s \<and> \<not> idx s < length (target_poses s) - 1
            then STANDING_ANIMATION else WALKING_ANIMATION)))"
proof (intro conjI impI)
  assume "follow_mode s = ''velocity''"
  then show "\<exists>s'. OnUpdate info s = Inr s' \<and> trajectoryInfo_type s' = WALKING_ANIMATION"
    by (rule velocity_tick_clip)
next
  assume "follow_mode s = ''path'' \<and> \<not> abort s \<and> target_poses s \<noteq> []"
  then have "follow_mode s = ''path''" "\<not> abort s" "target_poses s \<noteq> []" by simp_all
  then show "\<exists>s'. OnUpdate info s = Inr s' \<and>
         trajectoryInfo_type s' =
           (if Length2 (to_target s) < lin_tolerance s \<and> \<not> idx s < length (target_poses s) - 1
            then STANDING_ANIMATION else WALKING_ANIMATION)"
    by (rule path_tick_clip)
qed

theorem clip_selection_witness:
  "follow_mode (loaded_plugin ''velocity'') = ''velocity'' \<and>
   (\<exists>s'. OnUpdate \<lparr>simTime = 1\<rparr> (loaded_plugin ''velocity'') = Inr s'
      \<and> trajectoryInfo_type s' = WALKING_ANIMATION) \<and>
   follow_mode goal_ahead = ''path'' \<and> \<not> abort goal_ahead \<and> target_poses goal_ahead \<noteq> [] \<and>
   (\<exists>s'. OnUpdate \<lparr>simTime = 1\<rparr> goal_ahead = Inr s'
      \<and> trajectoryInfo_type s' = WALKING_ANIMATION) \<and>
   follow_mode (loaded_plugin ''path'') = ''path'' \<and> \<not> abort (loaded_plugin ''path'')
   \<and> target_poses (loaded_plugin ''path'') \<noteq> [] \<and>
   (\<exists>s'. OnUpdate \<lparr>simTime = 1\<rparr> (loaded_plugin ''path'') = Inr s'
      \<and> trajectoryInfo_type s' = STANDING_ANIMATION)"
  using clip_selection[of "loaded_plugin ''velocity''" "\<lparr>simTime = 1\<rparr>"]
    clip_selection[of goal_ahead "\<lparr>simTime = 1\<rparr>"]
    clip_selection[of "loaded_plugin ''path''" "\<lparr>simTime = 1\<rparr>"]
  by (simp add: loaded_plugin_def goal_ahead_def to_target_def origin_def)

text \<open>
  The claim as stated fails in velocity mode: with no command ever received the held
  velocity is zero, the tick leaves the pose as it is, and the clip is "walking".
\<close>

theorem idle_velocity_tick_walks:
  "follow_mode (loaded_plugin ''velocity'') = ''velocity'' \<and>
   cmd_queue (loaded_plugin ''velocity'') = [] \<and>
   X (PosP (target_vel (loaded_plugin ''velocity''))) = 0 \<and>
   Z (Euler (RotP (target_vel (loaded_plugin ''velocity'')))) = 0 \<and>
   \<not> isl (OnUpdate \<lparr>simTime = 1\<rparr> (loaded_plugin ''velocity'')) \<and>
   actor_WorldPose (projr (OnUpdate \<lparr>simTime = 1\<rparr> (loaded_plugin ''velocity'')))
     = actor_WorldPose (loaded_plugin ''velocity'') \<and>
   trajectoryInfo_type (projr (OnUpdate \<lparr>simTime = 1\<rparr> (loaded_plugin ''velocity'')))
     = WALKING_ANIMATION \<and>
   trajectoryInfo_type (projr (OnUpdate \<lparr>simTime = 1\<rparr> (loaded_plugin ''velocity'')))
     \<noteq> STANDING_ANIMATION"
proof -
  have m: "follow_mode (loaded_plugin ''velocity'') = ''velocity''"
    and q: "cmd_queue (loaded_plugin ''velocity'') = []"
    by (simp_all add: loaded_plugin_def)
  have v: "X (PosP (target_vel (loaded_plugin ''velocity''))) = 0"
    "Z (Euler (RotP (target_vel (loaded_plugin ''velocity'')))) = 0"
    by (simp_all add: loaded_plugin_def origin_def)
  have pose: "actor_WorldPose (loaded_plugin ''velocity'')
      = \<lparr>PosP = origin, RotP = Quaterniond 0 0 0\<rparr>"
    "default_rotation (loaded_plugin ''velocity'') = 0"
    by (simp_all add: loaded_plugin_def)
  have tick: "\<not> isl (OnUpdate \<lparr>simTime = 1\<rparr> (loaded_plugin ''velocity''))"
    "actor_WorldPose (projr (OnUpdate \<lparr>simTime = 1\<rparr> (loaded_plugin ''velocity'')))
       = actor_WorldPose (loaded_plugin ''velocity'')"
    "trajectoryInfo_type (projr (OnUpdate \<lparr>simTime = 1\<rparr> (loaded_plugin ''velocity'')))
       = WALKING_ANIMATION"
    unfolding velocity_tick_empty[OF m q]
    by (simp_all add: v pose origin_def)
  from m q v tick show ?thesis by simp
qed

section \<open>The odometry message\<close>





lemma goal_ahead_facts:
  "follow_mode goal_ahead = ''path''"
  "\<not> abort goal_ahead"
  "target_poses goal_ahead \<noteq> []"
  "to_target goal_ahead = (10, 0)"
  "lin_tolerance goal_ahead = 1 / 10"
  "ang_tolerance goal_ahead = 5 * pi / 180"
  "lin_velocity goal_ahead = 1"
  "last_update goal_ahead = 0"
  "actor_pub goal_ahead = []"
  "PosP (actor_WorldPose goal_ahead) = origin"
  "target_pose goal_ahead = \<lparr>X = 10, Y = 0, Z = 0\<rparr>"
  by (simp_all add: goal_ahead_def loaded_plugin_def to_target_def origin_def)

lemma unit_heading_x: "0 < a \<Longrightarrow> unit_heading (a, 0) = (1, 0)"
  by (simp add: unit_heading_def)

lemma goal_ahead_error: "angular_error goal_ahead (10, 0) = 0"
  by (simp add: angular_error_def angular_displacement_def unit_heading_x atan2_def
        goal_ahead_def loaded_plugin_def)







section \<open>The distance to the target\<close>

lemma to_target_finish [simp]:
  "to_target (finish_update info s pose od) =
     (X (target_pose s) - X (PosP pose), Y (target_pose s) - Y (PosP pose))"
  by (simp add: to_target_def)

lemma Length2_after_step:
  assumes "0 < Length2 (a, b)"
  shows "Length2 (a - a / Length2 (a, b) * k, b - b / Length2 (a, b) * k)
           = \<bar>Length2 (a, b) - k\<bar>"
proof -
  let ?d = "Length2 (a, b)"
  have "a - a / ?d * k = (1 - k / ?d) * a" "b - b / ?d * k = (1 - k / ?d) * b"
    by (simp_all add: algebra_simps)
  then have "Length2 (a - a / ?d * k, b - b / ?d * k) = \<bar>1 - k / ?d\<bar> * ?d"
    by (simp only: Length2_scale)
  also have "\<dots> = \<bar>(1 - k / ?d) * ?d\<bar>"
    using assms by (simp add: abs_mult)
  also have "(1 - k / ?d) * ?d = ?d - k"
    using assms by (simp add: field_simps)
  finally show ?thesis .
qed

lemma far_tick_distance:
  assumes "follow_mode s = ''path''" "\<not> abort s" "target_poses s \<noteq> []"
    and "0 < Length2 (to_target s)" "\<not> Length2 (to_target s) < lin_tolerance s"
  shows "\<exists>s'. OnUpdate info s = Inr s' \<and> target_pose s' = target_pose s \<and>
           Length2 (to_target s') =
             (if \<bar>angular_error s (to_target s)\<bar> > ang_tolerance s
              then Length2 (to_target s)
              else \<bar>Length2 (to_target s) - lin_velocity s * (simTime info - last_update s)\<bar>)"
proof -
  note st = select_target_far[OF assms(2,3,5)]
  have ne: "Length2 (to_target s) \<noteq> 0" using assms(4) by simp
  show ?thesis
  proof (cases "\<bar>angular_error s (to_target s)\<bar> > ang_tolerance s")
    case True
    then have c: "\<bar>angular_displacement s (Euler (RotP (actor_WorldPose s)))
        (unit_heading (to_target s))\<bar> > ang_tolerance s"
      by (simp add: angular_error_def)
    show ?thesis
      unfolding path_tick_rotate[OF assms(1) st c]
      using True by (simp add: to_target_def)
  next
    case False
    then have c: "\<not> \<bar>angular_displacement s (Euler (RotP (actor_WorldPose s)))
        (unit_heading (to_target s))\<bar> > ang_tolerance s"
      by (simp add: angular_error_def)
    let ?a = "X (target_pose s) - X (PosP (actor_WorldPose s))"
    let ?b = "Y (target_pose s) - Y (PosP (actor_WorldPose s))"
    let ?k = "lin_velocity s * (simTime info - last_update s)"
    have tt: "to_target s = (?a, ?b)" by (simp add: to_target_def)
    have pos: "0 < Length2 (?a, ?b)" using assms(4) by (simp add: tt)
    have uh: "unit_heading (to_target s) = (?a / Length2 (?a, ?b), ?b / Length2 (?a, ?b))"
      using ne by (simp add: unit_heading_def tt)
    have eq: "Length2 (?a - ?a / Length2 (?a, ?b) * ?k, ?b - ?b / Length2 (?a, ?b) * ?k)
           = \<bar>Length2 (?a, ?b) - ?k\<bar>"
      using pos by (rule Length2_after_step)
    have new: "Length2
        (X (target_pose s)
           - (X (PosP (actor_WorldPose s))
              + fst (unit_heading (to_target s)) * lin_velocity s
                  * (simTime info - last_update s)),
         Y (target_pose s)
           - (Y (PosP (actor_WorldPose s))
              + snd (unit_heading (to_target s)) * lin_velocity s
                  * (simTime info - last_update s)))
        = \<bar>Length2 (to_target s) - ?k\<bar>"
    proof -
      have "X (target_pose s)
           - (X (PosP (actor_WorldPose s))
              + fst (unit_heading (to_target s)) * lin_velocity s
                  * (simTime info - last_update s))
          = ?a - ?a / Length2 (?a, ?b) * ?k"
        unfolding uh by (simp add: algebra_simps)
      moreover have "Y (target_pose s)
           - (Y (PosP (actor_WorldPose s))
              + snd (unit_heading (to_target s)) * lin_velocity s
                  * (simTime info - last_update s))
          = ?b - ?b / Length2 (?a, ?b) * ?k"
        unfolding uh by (simp add: algebra_simps)
      ultimately show ?thesis
        using eq by (simp only: tt)
    qed
    show ?thesis
      unfolding path_tick_move[OF assms(1) st c]
      using False by (simp add: new)
  qed
qed

lemma arrived_tick_distance:
  assumes "follow_mode s = ''path''" "\<not> abort s" "target_poses s \<noteq> []"
    and "Length2 (to_target s) < lin_tolerance s" "\<not> idx s < length (target_poses s) - 1"
  shows "\<exists>s'. OnUpdate info s = Inr s' \<and> target_pose s' = target_pose s \<and>
           PosP (actor_WorldPose s') = PosP (actor_WorldPose s) \<and>
           Length2 (to_target s') = Length2 (to_target s)"
proof -
  note st = select_target_done[OF assms(2,3,4,5)]
  show ?thesis
  proof (cases "\<bar>angular_displacement s (Euler (RotP (actor_WorldPose s)))
        (unit_heading (0, 0))\<bar> > ang_tolerance s")
    case True
    show ?thesis
      unfolding path_tick_rotate[OF assms(1) st True]
      by (simp add: to_target_def)
  next
    case False
    show ?thesis
      unfolding path_tick_move[OF assms(1) st False]
      by (simp add: to_target_def)
  qed
qed

text \<open>
  Claim C7, amended. In path mode, with the abort flag clear and a waypoint list that is
  not empty, a tick that keeps its target does the following to the distance \<open>d\<close> from
  the actor to that target. When \<open>d\<close> is positive and not below the linear tolerance,
  the tick holds \<open>d\<close> if the angular error exceeds the angular tolerance (it turns in
  place), and otherwise changes it to \<open>|d - linear_velocity * dt|\<close>. When \<open>d\<close> is below
  the linear tolerance and no waypoint follows, the tick holds \<open>d\<close>.
\<close>

theorem distance_to_target_step:
  assumes "follow_mode s = ''path''" and "\<not> abort s" and "target_poses s \<noteq> []"
  shows "\<exists>s'. OnUpdate info s = Inr s' \<and>
     (0 < Length2 (to_target s) \<and> \<not> Length2 (to_target s) < lin_tolerance s \<longrightarrow>
        target_pose s' = target_pose s \<and>
        Length2 (to_target s') =
          (if \<bar>angular_error s (to_target s)\<bar> > ang_tolerance s
           then Length2 (to_target s)
           else \<bar>Length2 (to_target s) - lin_velocity s * (simTime info - last_update s)\<bar>)) \<and>
     (Length2 (to_target s) < lin_tolerance s \<and> \<not> idx s < length (target_poses s) - 1 \<longrightarrow>
        target_pose s' = target_pose s \<and>
        Length2 (to_target s') = Length2 (to_target s))"
proof -
  consider (far) "0 < Length2 (to_target s)" "\<not> Length2 (to_target s) < lin_tolerance s"
    | (arrived) "Length2 (to_target s) < lin_tolerance s" "\<not> idx s < length (target_poses s) - 1"
    | (neither) "\<not> (0 < Length2 (to_target s) \<and> \<not> Length2 (to_target s) < lin_tolerance s)"
        "\<not> (Length2 (to_target s) < lin_tolerance s \<and> \<not> idx s < length (target_poses s) - 1)"
    by blast
  then show ?thesis
  proof cases
    case far
    from far_tick_distance[OF assms far, of info] obtain s' where
      "OnUpdate info s = Inr s'" "target_pose s' = target_pose s"
      "Length2 (to_target s') =
          (if \<bar>angular_error s (to_target s)\<bar> > ang_tolerance s
           then Length2 (to_target s)
           else \<bar>Length2 (to_target s) - lin_velocity s * (simTime info - last_update s)\<bar>)"
      by (elim exE conjE)
    with far show ?thesis by simp
  next
    case arrived
    from arrived_tick_distance[OF assms arrived, of info] obtain s' where
      "OnUpdate info s = Inr s'" "target_pose s' = target_pose s"
      "Length2 (to_target s') = Length2 (to_target s)"
      by (elim exE conjE)
    with arrived show ?thesis by simp
  next
    case neither
    obtain s' where "OnUpdate info s = Inr s'" using OnUpdate_total by blast
    with neither show ?thesis by blast
  qed
qed

text \<open>
  The new distance \<open>|d - k|\<close> is below \<open>d\<close> exactly when the step \<open>k\<close> is positive and
  shorter than twice the distance.
\<close>

lemma step_decreases_iff:
  fixes d k :: real
  assumes "0 < d"
  shows "\<bar>d - k\<bar> < d \<longleftrightarrow> 0 < k \<and> k < 2 * d"
  using assms by (auto simp: abs_less_iff)

lemma goal_left_facts:
  "follow_mode goal_left = ''path''"
  "\<not> abort goal_left"
  "target_poses goal_left \<noteq> []"
  "to_target goal_left = (0, 10)"
  "lin_tolerance goal_left = 1 / 10"
  "ang_tolerance goal_left = 5 * pi / 180"
  "ang_velocity goal_left = 10 * pi / 180"
  "last_update goal_left = 0"
  "PosP (actor_WorldPose goal_left) = origin"
  "Euler (RotP (actor_WorldPose goal_left)) = origin"
  "default_rotation goal_left = 0"
  by (simp_all add: goal_left_def loaded_plugin_def to_target_def origin_def)

lemma unit_heading_y: "0 < b \<Longrightarrow> unit_heading (0, b) = (0, 1)"
  by (simp add: unit_heading_def)

lemma Normalize_half_pi [simp]: "Normalize (pi / 2) = pi / 2"
  by (simp add: Normalize_def atan2_def)

lemma goal_left_error: "angular_error goal_left (0, 10) = pi / 2"
  by (simp add: angular_error_def angular_displacement_def unit_heading_y atan2_def
        goal_left_facts origin_def)

lemma goal_left_error_large: "\<bar>angular_error goal_left (0, 10)\<bar> > ang_tolerance goal_left"
proof -
  have "5 * pi / 180 < pi / 2" using pi_gt_zero by simp
  then show ?thesis by (simp add: goal_left_error goal_left_facts)
qed

theorem distance_to_target_step_witness:
  "follow_mode goal_ahead = ''path'' \<and> \<not> abort goal_ahead \<and> target_poses goal_ahead \<noteq> [] \<and>
   0 < Length2 (to_target goal_ahead) \<and>
   \<not> Length2 (to_target goal_ahead) < lin_tolerance goal_ahead \<and>
   (\<exists>s'. OnUpdate \<lparr>simTime = 1\<rparr> goal_ahead = Inr s' \<and> Length2 (to_target s') = 9) \<and>
   follow_mode (loaded_plugin ''path'') = ''path'' \<and> \<not> abort (loaded_plugin ''path'') \<and>
   target_poses (loaded_plugin ''path'') \<noteq> [] \<and>
   Length2 (to_target (loaded_plugin ''path'')) < lin_tolerance (loaded_plugin ''path'') \<and>
   \<not> idx (loaded_plugin ''path'') < length (target_poses (loaded_plugin ''path'')) - 1 \<and>
   (\<exists>s'. OnUpdate \<lparr>simTime = 1\<rparr> (loaded_plugin ''path'') = Inr s' \<and> Length2 (to_target s') = 0)"
proof -
  have a: "\<exists>s'. OnUpdate \<lparr>simTime = 1\<rparr> goal_ahead = Inr s' \<and> Length2 (to_target s') = 9"
    using distance_to_target_step[OF goal_ahead_facts(1,2,3), of "\<lparr>simTime = 1\<rparr>"]
    by (auto simp: goal_ahead_facts goal_ahead_error)
  have b: "\<exists>s'. OnUpdate \<lparr>simTime = 1\<rparr> (loaded_plugin ''path'') = Inr s'
              \<and> Length2 (to_target s') = 0"
    using distance_to_target_step[OF loaded_path_facts(1,2,3), of "\<lparr>simTime = 1\<rparr>"]
      loaded_path_facts(4,5)
    by (auto simp: to_target_def loaded_plugin_def origin_def)
  from a b show ?thesis
    using loaded_path_facts by (simp add: goal_ahead_facts)
qed

text \<open>
  The claim as stated fails on a turning tick: with the waypoint at a right angle to the
  heading the tick turns in place, and the distance stays 10, outside the tolerance.
\<close>

theorem turning_tick_holds_distance:
  "follow_mode goal_left = ''path'' \<and> \<not> abort goal_left \<and> target_poses goal_left \<noteq> [] \<and>
   \<not> isl (OnUpdate \<lparr>simTime = 1\<rparr> goal_left) \<and>
   \<not> (Length2 (to_target (projr (OnUpdate \<lparr>simTime = 1\<rparr> goal_left)))
         < Length2 (to_target goal_left)
       \<or> Length2 (to_target (projr (OnUpdate \<lparr>simTime = 1\<rparr> goal_left)))
           = Length2 (to_target goal_left)
         \<and> Length2 (to_target goal_left) < lin_tolerance goal_left)"
proof -
  have far: "\<not> Length2 (to_target goal_left) < lin_tolerance goal_left"
    by (simp add: goal_left_facts)
  note st = select_target_far[OF goal_left_facts(2,3) far]
  have c: "\<bar>angular_displacement goal_left (Euler (RotP (actor_WorldPose goal_left)))
        (unit_heading (to_target goal_left))\<bar> > ang_tolerance goal_left"
    using goal_left_error_large by (simp add: angular_error_def goal_left_facts)
  have tick: "\<not> isl (OnUpdate \<lparr>simTime = 1\<rparr> goal_left)"
    "Length2 (to_target (projr (OnUpdate \<lparr>simTime = 1\<rparr> goal_left))) = Length2 (to_target goal_left)"
    unfolding path_tick_rotate[OF goal_left_facts(1) st c]
    by (simp_all add: to_target_def)
  from tick far show ?thesis by (simp add: goal_left_facts)
qed

section \<open>Turn, then move\<close>

lemma select_target_vector:
  assumes "select_target s (actor_WorldPose s) = Inr (s1, p0)" and "Length2 p0 \<noteq> 0"
  shows "p0 = to_target s1"
  using assms
  by (auto simp: select_target_def Let_def ChooseNewTarget_guarded to_target_def
           split: if_splits)

lemma heading_snaps:
  assumes "Length2 p \<noteq> 0"
  shows "cos (Z rpy + angular_displacement s rpy (unit_heading p)
               - default_rotation s) = fst (unit_heading p)
       \<and> sin (Z rpy + angular_displacement s rpy (unit_heading p)
               - default_rotation s) = snd (unit_heading p)"
proof -
  let ?u = "unit_heading p"
  let ?b = "atan2 (snd ?u) (fst ?u)"
  let ?n = "Normalize (?b + default_rotation s - Z rpy)"
  have one: "Length2 ?u = 1" using assms by (rule Length2_unit_heading)
  then have ad: "angular_displacement s rpy ?u = ?n"
    by (simp add: angular_displacement_def)
  from one have "Length2 (fst ?u, snd ?u) = 1" by simp
  then have circ: "fst ?u * fst ?u + snd ?u * snd ?u = 1" by (rule unit_circle)
  note b = cos_sin_atan2[OF circ]
  note n = cos_sin_Normalize[of "?b + default_rotation s - Z rpy"]
  have "cos (Z rpy + ?n - default_rotation s) = cos ((Z rpy - default_rotation s) + ?n)"
    by (simp add: algebra_simps)
  also have "\<dots> = cos (Z rpy - default_rotation s) * cos (?b + default_rotation s - Z rpy)
                   - sin (Z rpy - default_rotation s) * sin (?b + default_rotation s - Z rpy)"
    by (simp only: cos_add n)
  also have "\<dots> = cos ((Z rpy - default_rotation s) + (?b + default_rotation s - Z rpy))"
    by (simp only: cos_add)
  also have "\<dots> = cos ?b" by simp
  finally have c: "cos (Z rpy + ?n - default_rotation s) = fst ?u" using b by simp
  have "sin (Z rpy + ?n - default_rotation s) = sin ((Z rpy - default_rotation s) + ?n)"
    by (simp add: algebra_simps)
  also have "\<dots> = sin (Z rpy - default_rotation s) * cos (?b + default_rotation s - Z rpy)
                   + cos (Z rpy - default_rotation s) * sin (?b + default_rotation s - Z rpy)"
    by (simp only: sin_add n)
  also have "\<dots> = sin ((Z rpy - default_rotation s) + (?b + default_rotation s - Z rpy))"
    by (simp only: sin_add)
  also have "\<dots> = sin ?b" by simp
  finally have s: "sin (Z rpy + ?n - default_rotation s) = snd ?u" using b by simp
  from c s show ?thesis by (simp only: ad)
qed

lemma unit_step_nonzero:
  assumes "Length2 u = 1" and "k \<noteq> 0"
  shows "(x + fst u * k, y + snd u * k) \<noteq> (x, y)"
proof
  assume "(x + fst u * k, y + snd u * k) = (x, y)"
  with assms(2) have "fst u = 0" "snd u = 0" by simp_all
  then have "u = (0, 0)" by (simp add: prod_eq_iff)
  with assms(1) show False by simp
qed

lemma cos_sin_Normalize_diff:
  "cos (Normalize a - b) = cos (a - b) \<and> sin (Normalize a - b) = sin (a - b)"
  using cos_sin_Normalize[of a] by (simp add: cos_diff sin_diff)

text \<open>
  Claim C3, amended. Take a path tick with the abort flag clear and a waypoint list that
  is not empty, and the target \<open>t\<close> it steers at: the current target when the actor is
  not within the linear tolerance of it, the next waypoint when it is and another
  waypoint follows. Let the displacement \<open>p0\<close> from the actor to \<open>t\<close> be not zero. If
  the absolute angular error exceeds the angular tolerance, the tick leaves the position
  unchanged and builds the new orientation from the old yaw plus the signed angular
  velocity times \<open>dt\<close> (the yaw then read back is that sum wrapped into \<open>(-pi, pi]\<close>).
  Otherwise it translates by the linear velocity times \<open>dt\<close> along the unit vector
  towards \<open>t\<close>, which is a nonzero translation when the linear velocity and \<open>dt\<close> are
  not zero, and the new heading points exactly along that unit vector.
\<close>

theorem turn_then_move:
  assumes "follow_mode s = ''path''" and "\<not> abort s" and "target_poses s \<noteq> []"
    and "\<not> Length2 (to_target s) < lin_tolerance s \<and> t = target_pose s
         \<or> Length2 (to_target s) < lin_tolerance s \<and> idx s < length (target_poses s) - 1
            \<and> t = target_poses s ! (idx s + 1)"
    and "p0 = (X t - X (PosP (actor_WorldPose s)), Y t - Y (PosP (actor_WorldPose s)))"
    and "Length2 p0 \<noteq> 0"
  shows "\<exists>s'. OnUpdate info s = Inr s' \<and> target_pose s' = t \<and>
     (\<bar>angular_error s p0\<bar> > ang_tolerance s \<longrightarrow>
        PosP (actor_WorldPose s') = PosP (actor_WorldPose s) \<and>
        RotP (actor_WorldPose s') =
          Quaterniond (default_rotation s) 0
            (Z (Euler (RotP (actor_WorldPose s)))
               + (if angular_error s p0 < 0 then - 1 else 1) * ang_velocity s
                   * (simTime info - last_update s)) \<and>
        Z (Euler (RotP (actor_WorldPose s'))) =
          Normalize
            (Z (Euler (RotP (actor_WorldPose s)))
               + (if angular_error s p0 < 0 then - 1 else 1) * ang_velocity s
                   * (simTime info - last_update s))) \<and>
     (\<not> \<bar>angular_error s p0\<bar> > ang_tolerance s \<longrightarrow>
        Length2 (unit_heading p0) = 1 \<and>
        X (PosP (actor_WorldPose s')) =
          X (PosP (actor_WorldPose s))
            + fst (unit_heading p0) * (lin_velocity s * (simTime info - last_update s)) \<and>
        Y (PosP (actor_WorldPose s')) =
          Y (PosP (actor_WorldPose s))
            + snd (unit_heading p0) * (lin_velocity s * (simTime info - last_update s)) \<and>
        (lin_velocity s \<noteq> 0 \<and> simTime info - last_update s \<noteq> 0 \<longrightarrow>
           (X (PosP (actor_WorldPose s')), Y (PosP (actor_WorldPose s')))
             \<noteq> (X (PosP (actor_WorldPose s)), Y (PosP (actor_WorldPose s)))) \<and>
        cos (heading s') = fst (unit_heading p0) \<and>
        sin (heading s') = snd (unit_heading p0))"
proof -
  let ?rpy = "Euler (RotP (actor_WorldPose s))"
  let ?u = "unit_heading p0"
  let ?dt = "simTime info - last_update s"
  obtain s1 where st: "select_target s (actor_WorldPose s) = Inr (s1, p0)"
    and tp: "target_pose s1 = t"
  proof -
    from assms(4) consider
      (far) "\<not> Length2 (to_target s) < lin_tolerance s" "t = target_pose s"
      | (nxt) "Length2 (to_target s) < lin_tolerance s" "idx s < length (target_poses s) - 1"
          "t = target_poses s ! (idx s + 1)"
      by blast
    then show ?thesis
    proof cases
      case far
      have "p0 = to_target s" by (simp add: assms(5) far(2) to_target_def)
      with select_target_far[OF assms(2,3) far(1)] far(2) that show ?thesis by simp
    next
      case nxt
      from select_target_next[OF assms(2,3) nxt(1,2)] nxt(3) assms(5) that
      show ?thesis by simp
    qed
  qed
  note keep = select_target_keeps[OF st]
  have one: "Length2 ?u = 1" using assms(6) by (rule Length2_unit_heading)
  show ?thesis
  proof (cases "\<bar>angular_error s p0\<bar> > ang_tolerance s")
    case True
    then have c: "\<bar>angular_displacement s ?rpy ?u\<bar> > ang_tolerance s"
      by (simp add: angular_error_def)
    show ?thesis
      unfolding path_tick_rotate[OF assms(1) st c]
      using True tp by (simp add: angular_error_def)
  next
    case False
    then have c: "\<not> \<bar>angular_displacement s ?rpy ?u\<bar> > ang_tolerance s"
      by (simp add: angular_error_def)
    note snap = heading_snaps[OF assms(6), of ?rpy s]
    have move: "lin_velocity s \<noteq> 0 \<and> ?dt \<noteq> 0 \<longrightarrow>
        (X (PosP (actor_WorldPose s)) + fst ?u * (lin_velocity s * ?dt),
         Y (PosP (actor_WorldPose s)) + snd ?u * (lin_velocity s * ?dt))
        \<noteq> (X (PosP (actor_WorldPose s)), Y (PosP (actor_WorldPose s)))"
    proof
      assume "lin_velocity s \<noteq> 0 \<and> ?dt \<noteq> 0"
      then have "lin_velocity s * ?dt \<noteq> 0" by simp
      with one show "(X (PosP (actor_WorldPose s)) + fst ?u * (lin_velocity s * ?dt),
         Y (PosP (actor_WorldPose s)) + snd ?u * (lin_velocity s * ?dt))
        \<noteq> (X (PosP (actor_WorldPose s)), Y (PosP (actor_WorldPose s)))"
        by (rule unit_step_nonzero)
    qed
    obtain s' where s': "s' = finish_update info s1
           ((actor_WorldPose s)
              \<lparr>PosP := (PosP (actor_WorldPose s))
                 \<lparr>X := X (PosP (actor_WorldPose s))
                        + fst ?u * lin_velocity s * ?dt,
                  Y := Y (PosP (actor_WorldPose s))
                        + snd ?u * lin_velocity s * ?dt\<rparr>,
               RotP := Quaterniond (default_rotation s) 0
                 (Z ?rpy + angular_displacement s ?rpy ?u)\<rparr>)
           ((start_odom s)
              \<lparr>twist_linear_x := fst ?u * lin_velocity s,
               twist_linear_y := snd ?u * lin_velocity s,
               twist_angular_z := fdiv (angular_displacement s ?rpy ?u) ?dt\<rparr>)"
      by simp
    have t: "OnUpdate info s = Inr s'"
      unfolding s' by (rule path_tick_move[OF assms(1) st c])
    have f1: "target_pose s' = t" by (simp add: s' tp)
    have f2: "X (PosP (actor_WorldPose s')) =
          X (PosP (actor_WorldPose s)) + fst ?u * (lin_velocity s * ?dt)"
      "Y (PosP (actor_WorldPose s')) =
          Y (PosP (actor_WorldPose s)) + snd ?u * (lin_velocity s * ?dt)"
      by (simp_all add: s' algebra_simps)
    have f3: "heading s' =
        Normalize (Z ?rpy + angular_displacement s ?rpy ?u) - default_rotation s"
      by (simp add: s' heading_def keep)
    have f4: "cos (heading s') = fst ?u" "sin (heading s') = snd ?u"
      using snap cos_sin_Normalize_diff[of "Z ?rpy + angular_displacement s ?rpy ?u"
          "default_rotation s"]
      by (simp_all only: f3)
    have f5: "lin_velocity s \<noteq> 0 \<and> ?dt \<noteq> 0 \<longrightarrow>
           (X (PosP (actor_WorldPose s')), Y (PosP (actor_WorldPose s')))
             \<noteq> (X (PosP (actor_WorldPose s)), Y (PosP (actor_WorldPose s)))"
      using move by (simp only: f2)
    from False t f1 one f2 f4 f5 show ?thesis by blast
  qed
qed

lemma goal_left_select:
  "select_target goal_left (actor_WorldPose goal_left) =
     Inr (goal_left\<lparr>trajectoryInfo_type := WALKING_ANIMATION\<rparr>, (0, 10))"
proof -
  have "\<not> Length2 (to_target goal_left) < lin_tolerance goal_left"
    by (simp add: goal_left_facts)
  from select_target_far[OF goal_left_facts(2,3) this] show ?thesis
    by (simp add: goal_left_facts)
qed

lemma goal_ahead_error_small:
  "\<not> \<bar>angular_error goal_ahead (10, 0)\<bar> > ang_tolerance goal_ahead"
  by (simp add: goal_ahead_error goal_ahead_facts)

lemma stalled_facts:
  "follow_mode (goal_ahead\<lparr>lin_velocity := 0\<rparr>) = ''path''"
  "\<not> abort (goal_ahead\<lparr>lin_velocity := 0\<rparr>)"
  "target_poses (goal_ahead\<lparr>lin_velocity := 0\<rparr>) \<noteq> []"
  "to_target (goal_ahead\<lparr>lin_velocity := 0\<rparr>) = (10, 0)"
  "\<not> Length2 (to_target (goal_ahead\<lparr>lin_velocity := 0\<rparr>))
      < lin_tolerance (goal_ahead\<lparr>lin_velocity := 0\<rparr>)"
  "angular_error (goal_ahead\<lparr>lin_velocity := 0\<rparr>) (10, 0) = 0"
  "ang_tolerance (goal_ahead\<lparr>lin_velocity := 0\<rparr>) = 5 * pi / 180"
  "last_update (goal_ahead\<lparr>lin_velocity := 0\<rparr>) = 0"
  "actor_WorldPose (goal_ahead\<lparr>lin_velocity := 0\<rparr>) = actor_WorldPose goal_ahead"
  by (simp_all add: goal_ahead_def loaded_plugin_def to_target_def origin_def
        angular_error_def angular_displacement_def unit_heading_x atan2_def)

lemma two_goals_facts:
  "follow_mode two_goals = ''path''"
  "\<not> abort two_goals"
  "target_poses two_goals \<noteq> []"
  "target_poses two_goals = [\<lparr>X = 0, Y = 0, Z = 0\<rparr>, \<lparr>X = 10, Y = 0, Z = 0\<rparr>]"
  "idx two_goals = 0"
  "to_target two_goals = (0, 0)"
  "lin_tolerance two_goals = 1 / 10"
  "ang_tolerance two_goals = 5 * pi / 180"
  "lin_velocity two_goals = 1"
  "last_update two_goals = 0"
  "PosP (actor_WorldPose two_goals) = origin"
  "angular_error two_goals (10, 0) = 0"
  by (simp_all add: two_goals_def two_goal_path_def PathCallback_def loaded_plugin_def
        to_target_def origin_def Let_def angular_error_def angular_displacement_def
        unit_heading_x atan2_def)

lemma goal_near_facts:
  "follow_mode goal_near = ''path''"
  "\<not> abort goal_near"
  "target_poses goal_near \<noteq> []"
  "to_target goal_near = (1 / 20, 0)"
  "lin_tolerance goal_near = 1 / 10"
  "ang_tolerance goal_near = 5 * pi / 180"
  "lin_velocity goal_near = 1"
  "last_update goal_near = 0"
  "\<not> idx goal_near < length (target_poses goal_near) - 1"
  "angular_error goal_near (1 / 20, 0) = 0"
  by (simp_all add: goal_near_def loaded_plugin_def to_target_def origin_def
        angular_error_def angular_displacement_def unit_heading_x atan2_def)

lemma Normalize_small: "Normalize (pi / 18) = pi / 18"
proof -
  have "- pi < pi / 18" "pi / 18 \<le> pi" using pi_gt_zero by simp_all
  then show ?thesis by (rule Normalize_id)
qed

theorem turn_then_move_witness:
  "follow_mode goal_ahead = ''path'' \<and> \<not> abort goal_ahead \<and> target_poses goal_ahead \<noteq> [] \<and>
   \<not> Length2 (to_target goal_ahead) < lin_tolerance goal_ahead \<and>
   Length2 (10, 0) \<noteq> 0 \<and>
   \<not> \<bar>angular_error goal_ahead (10, 0)\<bar> > ang_tolerance goal_ahead \<and>
   lin_velocity goal_ahead \<noteq> 0 \<and>
   simTime \<lparr>simTime = 1\<rparr> - last_update goal_ahead \<noteq> 0 \<and>
   (\<exists>s'. OnUpdate \<lparr>simTime = 1\<rparr> goal_ahead = Inr s'
      \<and> X (PosP (actor_WorldPose s')) = 1 \<and> Y (PosP (actor_WorldPose s')) = 0
      \<and> cos (heading s') = 1 \<and> sin (heading s') = 0) \<and>
   follow_mode goal_left = ''path'' \<and> \<not> abort goal_left \<and> target_poses goal_left \<noteq> [] \<and>
   \<not> Length2 (to_target goal_left) < lin_tolerance goal_left \<and>
   Length2 (0, 10) \<noteq> 0 \<and>
   \<bar>angular_error goal_left (0, 10)\<bar> > ang_tolerance goal_left \<and>
   (\<exists>s'. OnUpdate \<lparr>simTime = 1\<rparr> goal_left = Inr s'
      \<and> PosP (actor_WorldPose s') = origin
      \<and> Z (Euler (RotP (actor_WorldPose s'))) = pi / 18) \<and>
   follow_mode two_goals = ''path'' \<and> \<not> abort two_goals \<and> target_poses two_goals \<noteq> [] \<and>
   Length2 (to_target two_goals) < lin_tolerance two_goals \<and>
   idx two_goals < length (target_poses two_goals) - 1 \<and>
   (\<exists>s'. OnUpdate \<lparr>simTime = 1\<rparr> two_goals = Inr s'
      \<and> target_pose s' = \<lparr>X = 10, Y = 0, Z = 0\<rparr>
      \<and> X (PosP (actor_WorldPose s')) = 1 \<and> Y (PosP (actor_WorldPose s')) = 0)"
proof -
  have n1: "Length2 (10, 0) \<noteq> 0" and n2: "Length2 (0, 10) \<noteq> 0" by simp_all
  have far1: "\<not> Length2 (to_target goal_ahead) < lin_tolerance goal_ahead"
    by (simp add: goal_ahead_facts)
  have far2: "\<not> Length2 (to_target goal_left) < lin_tolerance goal_left"
    by (simp add: goal_left_facts)
  have near3: "Length2 (to_target two_goals) < lin_tolerance two_goals"
    "idx two_goals < length (target_poses two_goals) - 1"
    by (simp_all add: two_goals_facts)
  have d1: "\<not> Length2 (to_target goal_ahead) < lin_tolerance goal_ahead
         \<and> target_pose goal_ahead = target_pose goal_ahead
       \<or> Length2 (to_target goal_ahead) < lin_tolerance goal_ahead
         \<and> idx goal_ahead < length (target_poses goal_ahead) - 1
         \<and> target_pose goal_ahead = target_poses goal_ahead ! (idx goal_ahead + 1)"
    using far1 by simp
  have p1: "(10, 0) = (X (target_pose goal_ahead) - X (PosP (actor_WorldPose goal_ahead)),
                      Y (target_pose goal_ahead) - Y (PosP (actor_WorldPose goal_ahead)))"
    by (simp add: goal_ahead_facts origin_def)
  from turn_then_move[OF goal_ahead_facts(1,2,3) d1 p1 n1, of "\<lparr>simTime = 1\<rparr>"]
  obtain sa where sa: "OnUpdate \<lparr>simTime = 1\<rparr> goal_ahead = Inr sa"
    and ma: "\<not> \<bar>angular_error goal_ahead (10, 0)\<bar> > ang_tolerance goal_ahead \<longrightarrow>
        Length2 (unit_heading (10, 0)) = 1 \<and>
        X (PosP (actor_WorldPose sa)) =
          X (PosP (actor_WorldPose goal_ahead))
            + fst (unit_heading (10, 0))
                * (lin_velocity goal_ahead * (simTime \<lparr>simTime = 1\<rparr> - last_update goal_ahead)) \<and>
        Y (PosP (actor_WorldPose sa)) =
          Y (PosP (actor_WorldPose goal_ahead))
            + snd (unit_heading (10, 0))
                * (lin_velocity goal_ahead * (simTime \<lparr>simTime = 1\<rparr> - last_update goal_ahead)) \<and>
        (lin_velocity goal_ahead \<noteq> 0 \<and> simTime \<lparr>simTime = 1\<rparr> - last_update goal_ahead \<noteq> 0 \<longrightarrow>
           (X (PosP (actor_WorldPose sa)), Y (PosP (actor_WorldPose sa)))
             \<noteq> (X (PosP (actor_WorldPose goal_ahead)), Y (PosP (actor_WorldPose goal_ahead)))) \<and>
        cos (heading sa) = fst (unit_heading (10, 0)) \<and>
        sin (heading sa) = snd (unit_heading (10, 0))"
    by (elim exE conjE)
  from ma goal_ahead_error_small have
    "X (PosP (actor_WorldPose sa)) = 1" "Y (PosP (actor_WorldPose sa)) = 0"
    "cos (heading sa) = 1" "sin (heading sa) = 0"
    by (simp_all add: goal_ahead_facts unit_heading_x origin_def)
  with sa have a: "\<exists>s'. OnUpdate \<lparr>simTime = 1\<rparr> goal_ahead = Inr s'
      \<and> X (PosP (actor_WorldPose s')) = 1 \<and> Y (PosP (actor_WorldPose s')) = 0
      \<and> cos (heading s') = 1 \<and> sin (heading s') = 0"
    by simp
  have d2: "\<not> Length2 (to_target goal_left) < lin_tolerance goal_left
         \<and> target_pose goal_left = target_pose goal_left
       \<or> Length2 (to_target goal_left) < lin_tolerance goal_left
         \<and> idx goal_left < length (target_poses goal_left) - 1
         \<and> target_pose goal_left = target_poses goal_left ! (idx goal_left + 1)"
    using far2 by simp
  have p2: "(0, 10) = (X (target_pose goal_left) - X (PosP (actor_WorldPose goal_left)),
                      Y (target_pose goal_left) - Y (PosP (actor_WorldPose goal_left)))"
    using goal_left_facts(4) by (simp add: to_target_def)
  from turn_then_move[OF goal_left_facts(1,2,3) d2 p2 n2, of "\<lparr>simTime = 1\<rparr>"]
  obtain sb where sb: "OnUpdate \<lparr>simTime = 1\<rparr> goal_left = Inr sb"
    and mb: "\<bar>angular_error goal_left (0, 10)\<bar> > ang_tolerance goal_left \<longrightarrow>
        PosP (actor_WorldPose sb) = PosP (actor_WorldPose goal_left) \<and>
        RotP (actor_WorldPose sb) =
          Quaterniond (default_rotation goal_left) 0
            (Z (Euler (RotP (actor_WorldPose goal_left)))
               + (if angular_error goal_left (0, 10) < 0 then - 1 else 1) * ang_velocity goal_left
                   * (simTime \<lparr>simTime = 1\<rparr> - last_update goal_left)) \<and>
        Z (Euler (RotP (actor_WorldPose sb))) =
          Normalize
            (Z (Euler (RotP (actor_WorldPose goal_left)))
               + (if angular_error goal_left (0, 10) < 0 then - 1 else 1) * ang_velocity goal_left
                   * (simTime \<lparr>simTime = 1\<rparr> - last_update goal_left))"
    by (elim exE conjE)
  from mb goal_left_error_large have
    "PosP (actor_WorldPose sb) = origin"
    "Z (Euler (RotP (actor_WorldPose sb))) = pi / 18"
    by (simp_all add: goal_left_facts goal_left_error origin_def Normalize_small)
  with sb have b: "\<exists>s'. OnUpdate \<lparr>simTime = 1\<rparr> goal_left = Inr s'
      \<and> PosP (actor_WorldPose s') = origin
      \<and> Z (Euler (RotP (actor_WorldPose s'))) = pi / 18"
    by simp
  have d3: "\<not> Length2 (to_target two_goals) < lin_tolerance two_goals
         \<and> target_poses two_goals ! (idx two_goals + 1) = target_pose two_goals
       \<or> Length2 (to_target two_goals) < lin_tolerance two_goals
         \<and> idx two_goals < length (target_poses two_goals) - 1
         \<and> target_poses two_goals ! (idx two_goals + 1)
             = target_poses two_goals ! (idx two_goals + 1)"
    using near3 by simp
  have p3: "(10, 0) = (X (target_poses two_goals ! (idx two_goals + 1))
                        - X (PosP (actor_WorldPose two_goals)),
                      Y (target_poses two_goals ! (idx two_goals + 1))
                        - Y (PosP (actor_WorldPose two_goals)))"
    by (simp add: two_goals_facts origin_def)
  have e3: "\<not> \<bar>angular_error two_goals (10, 0)\<bar> > ang_tolerance two_goals"
    by (simp add: two_goals_facts)
  from turn_then_move[OF two_goals_facts(1,2,3) d3 p3 n1, of "\<lparr>simTime = 1\<rparr>"]
  obtain sc where sc: "OnUpdate \<lparr>simTime = 1\<rparr> two_goals = Inr sc"
    and tc: "target_pose sc = target_poses two_goals ! (idx two_goals + 1)"
    and mc: "\<not> \<bar>angular_error two_goals (10, 0)\<bar> > ang_tolerance two_goals \<longrightarrow>
        Length2 (unit_heading (10, 0)) = 1 \<and>
        X (PosP (actor_WorldPose sc)) =
          X (PosP (actor_WorldPose two_goals))
            + fst (unit_heading (10, 0))
                * (lin_velocity two_goals * (simTime \<lparr>simTime = 1\<rparr> - last_update two_goals)) \<and>
        Y (PosP (actor_WorldPose sc)) =
          Y (PosP (actor_WorldPose two_goals))
            + snd (unit_heading (10, 0))
                * (lin_velocity two_goals * (simTime \<lparr>simTime = 1\<rparr> - last_update two_goals)) \<and>
        (lin_velocity two_goals \<noteq> 0 \<and> simTime \<lparr>simTime = 1\<rparr> - last_update two_goals \<noteq> 0 \<longrightarrow>
           (X (PosP (actor_WorldPose sc)), Y (PosP (actor_WorldPose sc)))
             \<noteq> (X (PosP (actor_WorldPose two_goals)), Y (PosP (actor_WorldPose two_goals)))) \<and>
        cos (heading sc) = fst (unit_heading (10, 0)) \<and>
        sin (heading sc) = snd (unit_heading (10, 0))"
    by (elim exE conjE)
  from mc e3 have
    "X (PosP (actor_WorldPose sc)) = 1" "Y (PosP (actor_WorldPose sc)) = 0"
    by (simp_all add: two_goals_facts unit_heading_x origin_def)
  moreover from tc have "target_pose sc = \<lparr>X = 10, Y = 0, Z = 0\<rparr>"
    by (simp add: two_goals_facts)
  ultimately have c: "\<exists>s'. OnUpdate \<lparr>simTime = 1\<rparr> two_goals = Inr s'
      \<and> target_pose s' = \<lparr>X = 10, Y = 0, Z = 0\<rparr>
      \<and> X (PosP (actor_WorldPose s')) = 1 \<and> Y (PosP (actor_WorldPose s')) = 0"
    using sc by simp
  have rest: "lin_velocity goal_ahead \<noteq> 0"
    "simTime \<lparr>simTime = 1\<rparr> - last_update goal_ahead \<noteq> 0"
    by (simp_all add: goal_ahead_facts)
  from a b c n1 n2 far1 far2 near3 goal_ahead_error_small goal_left_error_large rest
    goal_ahead_facts(1,2,3) goal_left_facts(1,2,3) two_goals_facts(1,2,3)
  show ?thesis by blast
qed

text \<open>
  The claim as stated fails in two ways. Within the linear tolerance of the last
  waypoint the displacement is not zero, the error is within tolerance, \<open>dt\<close> and the
  linear velocity are not zero, and the tick does not move. And with the linear velocity
  configured as zero the tick does not move either, at any distance.
\<close>

theorem stopped_short_or_zero_speed:
  "follow_mode goal_near = ''path'' \<and> \<not> abort goal_near \<and> target_poses goal_near \<noteq> [] \<and>
   Length2 (to_target goal_near) \<noteq> 0 \<and>
   \<not> \<bar>angular_error goal_near (to_target goal_near)\<bar> > ang_tolerance goal_near \<and>
   simTime \<lparr>simTime = 1\<rparr> - last_update goal_near \<noteq> 0 \<and>
   lin_velocity goal_near \<noteq> 0 \<and>
   \<not> isl (OnUpdate \<lparr>simTime = 1\<rparr> goal_near) \<and>
   PosP (actor_WorldPose (projr (OnUpdate \<lparr>simTime = 1\<rparr> goal_near)))
     = PosP (actor_WorldPose goal_near) \<and>
   follow_mode (goal_ahead\<lparr>lin_velocity := 0\<rparr>) = ''path'' \<and>
   Length2 (to_target (goal_ahead\<lparr>lin_velocity := 0\<rparr>)) \<noteq> 0 \<and>
   \<not> Length2 (to_target (goal_ahead\<lparr>lin_velocity := 0\<rparr>))
       < lin_tolerance (goal_ahead\<lparr>lin_velocity := 0\<rparr>) \<and>
   \<not> \<bar>angular_error (goal_ahead\<lparr>lin_velocity := 0\<rparr>) (to_target (goal_ahead\<lparr>lin_velocity := 0\<rparr>))\<bar>
       > ang_tolerance (goal_ahead\<lparr>lin_velocity := 0\<rparr>) \<and>
   simTime \<lparr>simTime = 1\<rparr> - last_update (goal_ahead\<lparr>lin_velocity := 0\<rparr>) \<noteq> 0 \<and>
   \<not> isl (OnUpdate \<lparr>simTime = 1\<rparr> (goal_ahead\<lparr>lin_velocity := 0\<rparr>)) \<and>
   PosP (actor_WorldPose (projr (OnUpdate \<lparr>simTime = 1\<rparr> (goal_ahead\<lparr>lin_velocity := 0\<rparr>))))
     = PosP (actor_WorldPose (goal_ahead\<lparr>lin_velocity := 0\<rparr>))"
proof -
  have near: "Length2 (to_target goal_near) < lin_tolerance goal_near"
    by (simp add: goal_near_facts)
  note st1 = select_target_done[OF goal_near_facts(2,3) near goal_near_facts(9)]
  have c1: "\<not> \<bar>angular_displacement goal_near (Euler (RotP (actor_WorldPose goal_near)))
        (unit_heading (0, 0))\<bar> > ang_tolerance goal_near"
    by (simp add: goal_near_facts)
  have tick1: "\<not> isl (OnUpdate \<lparr>simTime = 1\<rparr> goal_near)"
    "PosP (actor_WorldPose (projr (OnUpdate \<lparr>simTime = 1\<rparr> goal_near)))
       = PosP (actor_WorldPose goal_near)"
    unfolding path_tick_move[OF goal_near_facts(1) st1 c1]
    by simp_all
  let ?s = "goal_ahead\<lparr>lin_velocity := 0\<rparr>"
  note st = select_target_far[OF stalled_facts(2,3,5)]
  have c: "\<not> \<bar>angular_displacement ?s (Euler (RotP (actor_WorldPose ?s)))
        (unit_heading (to_target ?s))\<bar> > ang_tolerance ?s"
    using stalled_facts(6) by (simp add: angular_error_def stalled_facts(4,7))
  have tick: "\<not> isl (OnUpdate \<lparr>simTime = 1\<rparr> ?s)"
    "PosP (actor_WorldPose (projr (OnUpdate \<lparr>simTime = 1\<rparr> ?s))) = PosP (actor_WorldPose ?s)"
    unfolding path_tick_move[OF stalled_facts(1) st c]
    by simp_all
  from tick1 tick stalled_facts(5) show ?thesis
    by (simp add: stalled_facts goal_near_facts)
qed

section \<open>A path command during a tick\<close>

text \<open>
  The callbacks run on their own threads and nothing keeps one from running while a
  tick does. Here the tick has passed the guard of line 251 in a state with two
  waypoints (the index 0 is below the last index 1); a path command with one waypoint
  then replaces the list; the tick goes on to \<^verbatim>\<open>ChooseNewTarget\<close>, which moves the index
  to 1 and reads past the end of the new list.
\<close>

theorem path_command_after_guard:
  "follow_mode two_goals = ''path'' \<and> \<not> abort two_goals \<and> target_poses two_goals \<noteq> [] \<and>
   Length2 (to_target two_goals) < lin_tolerance two_goals \<and>
   idx two_goals < length (target_poses two_goals) - 1 \<and>
   ChooseNewTarget (PathCallback (\<lambda>q. 0) goal_path two_goals) = Inl out_of_range"
proof -
  have "ChooseNewTarget (PathCallback (\<lambda>q. 0) goal_path two_goals) = Inl out_of_range"
    by (simp add: ChooseNewTarget_def vector_at_def PathCallback_fields goal_path_def Let_def)
  then show ?thesis
    by (simp add: two_goals_facts)
qed

end
